theory Spec2Isabelle
  imports Complex_Main "HOL-Library.Word"
begin

section \<open>JavaScript values\<close>

text \<open>
  A JavaScript string is a sequence of UTF-16 code units; \<open>length\<close>, \<open>slice\<close> and
  \<open>trim\<close> count and inspect code units. String literals of the source are written
  \<open>js ''...''\<close>. Numbers (\<open>number\<close>) that the code only compares or passes on are
  reals; \<open>NaN\<close> and the infinities are outside the model. A \<open>Date\<close> is its time value,
  the milliseconds since the epoch.
\<close>

type_synonym jsstring = "16 word list"

definition js :: "string \<Rightarrow> jsstring" where
  "js s = map of_char s"

text \<open>The code units removed by \<open>String.prototype.trim\<close>: WhiteSpace and LineTerminator.\<close>

definition isWhiteSpace :: "16 word \<Rightarrow> bool" where
  "isWhiteSpace c \<longleftrightarrow>
     c = 0x9 \<or> c = 0xA \<or> c = 0xB \<or> c = 0xC \<or> c = 0xD \<or> c = 0x20 \<or> c = 0xA0 \<or>
     c = 0x1680 \<or> (0x2000 \<le> c \<and> c \<le> 0x200A) \<or> c = 0x2028 \<or> c = 0x2029 \<or>
     c = 0x202F \<or> c = 0x205F \<or> c = 0x3000 \<or> c = 0xFEFF"

definition trim :: "jsstring \<Rightarrow> jsstring" where
  "trim s = rev (dropWhile isWhiteSpace (rev (dropWhile isWhiteSpace s)))"

text \<open>\<open>Array.prototype.join\<close> on an array of strings.\<close>

fun join :: "jsstring \<Rightarrow> jsstring list \<Rightarrow> jsstring" where
  "join sep [] = []"
| "join sep [x] = x"
| "join sep (x # y # ys) = x @ sep @ join sep (y # ys)"

text \<open>\<open>xs.slice(-n)\<close>: the last \<open>n\<close> elements, all of them when there are fewer.\<close>

definition slice_last :: "nat \<Rightarrow> 'a list \<Rightarrow> 'a list" where
  "slice_last n xs = drop (length xs - n) xs"

text \<open>The decimal rendering of a natural number in a template literal.\<close>

fun decimal :: "nat \<Rightarrow> jsstring" where
  "decimal n = (if n < 10 then [48 + of_nat n]
                else decimal (n div 10) @ [48 + of_nat (n mod 10)])"

declare decimal.simps [simp del]

text \<open>\<open>toUpperCase\<close> on the ASCII letters; the code applies it to role names only.\<close>

definition toUpperCase :: "jsstring \<Rightarrow> jsstring" where
  "toUpperCase s = map (\<lambda>c. if 0x61 \<le> c \<and> c \<le> 0x7A then c - 0x20 else c) s"

section \<open>Data model (types)\<close>

datatype role = user | assistant

record ChatMessage =
  m_id :: jsstring
  m_role :: role
  m_content :: jsstring
  m_timestamp :: nat

record ChatSession =
  s_id :: jsstring
  messages :: "ChatMessage list"
  createdAt :: nat
  updatedAt :: nat

record Metadata =
  source :: jsstring
  title :: "jsstring option"
  url :: "jsstring option"
  timestamp :: "jsstring option"

record DocumentChunk =
  c_id :: jsstring
  content :: jsstring
  metadata :: Metadata
  score :: "real option"

record VectorSearchResult =
  r_id :: jsstring
  r_score :: real
  payload :: DocumentChunk

record ChatResponse =
  message :: jsstring
  session_id :: jsstring
  message_id :: jsstring
  sources :: "DocumentChunk list"

definition role_name :: "role \<Rightarrow> jsstring" where
  "role_name r = (case r of user \<Rightarrow> js ''user'' | assistant \<Rightarrow> js ''assistant'')"

section \<open>Errors\<close>

text \<open>
  Everything the code can throw: a plain \<open>Error\<close> (also what the Redis, Qdrant and
  Gemini clients reject with), an axios error with its optional response status and
  response message, a thrown value that is no \<open>Error\<close> instance, and the application's
  \<open>AppError\<close> classes with message, status code, code and details. The details are
  absent, the error that was caught, the status code and original message that
  \<open>generateEmbeddings\<close> records, or the array of validation errors.
\<close>

datatype error_class =
  ValidationErrorClass | NotFoundErrorClass | InternalServerErrorClass
  | ExternalServiceErrorClass | RateLimitErrorClass

datatype thrown =
    JsError jsstring
  | AxiosError "nat option" "jsstring option" jsstring
  | NonError
  | AppError error_class jsstring nat jsstring details
and details =
    NoDetails
  | Caught thrown
  | StatusInfo nat jsstring
  | ErrorList "jsstring list"

definition ValidationError :: "jsstring \<Rightarrow> details \<Rightarrow> thrown" where
  "ValidationError msg d = AppError ValidationErrorClass msg 400 (js ''VALIDATION_ERROR'') d"

definition NotFoundError :: "jsstring \<Rightarrow> thrown" where
  "NotFoundError msg = AppError NotFoundErrorClass msg 404 (js ''NOT_FOUND'') NoDetails"

definition InternalServerError :: "jsstring \<Rightarrow> details \<Rightarrow> thrown" where
  "InternalServerError msg d =
     AppError InternalServerErrorClass msg 500 (js ''INTERNAL_SERVER_ERROR'') d"

definition ExternalServiceError :: "jsstring \<Rightarrow> jsstring \<Rightarrow> details \<Rightarrow> thrown" where
  "ExternalServiceError service msg d =
     AppError ExternalServiceErrorClass (service @ js '': '' @ msg) 502
       (js ''EXTERNAL_SERVICE_ERROR'') d"

fun error_class_of :: "thrown \<Rightarrow> error_class option" where
  "error_class_of (AppError c _ _ _ _) = Some c"
| "error_class_of _ = None"

text \<open>\<open>error instanceof Error\<close> and \<open>error.message\<close>.\<close>

fun instanceof_Error :: "thrown \<Rightarrow> bool" where
  "instanceof_Error NonError = False"
| "instanceof_Error _ = True"

fun error_message :: "thrown \<Rightarrow> jsstring" where
  "error_message (JsError m) = m"
| "error_message (AxiosError _ _ m) = m"
| "error_message NonError = []"
| "error_message (AppError _ m _ _ _) = m"

section \<open>The outside world\<close>

text \<open>
  The collaborators are outside the program. Their answers are given by an environment
  of oracles, indexed by the number of the step at which they are consulted, so that
  any pattern of answers and failures can occur. The calls issued are recorded in a
  trace. JSON serialisation of a session followed by parsing and the revival of its
  dates is the identity, so the Redis store holds sessions, each with its
  time-to-live in seconds.
\<close>

record QdrantPoint =
  p_id :: jsstring
  p_vector :: "real list"
  p_content :: jsstring
  p_metadata :: Metadata

text \<open>A scored point as the Qdrant client returns it: payload and its fields may be missing.\<close>

datatype point_id = IdString jsstring | IdNumber nat

record ScoredPoint =
  sp_id :: point_id
  sp_score :: real
  sp_payload :: "(jsstring option \<times> Metadata option) option"

text \<open>The shapes of an answer to the embeddings request.\<close>

datatype jina_response =
    DataItems "real list list"
  | Embeddings "real list list"
  | NoEmbeddings

datatype event =
    RedisGet jsstring
  | RedisSetex jsstring nat ChatSession
  | RedisDel jsstring
  | RedisExpire jsstring nat
  | JinaPost "jsstring list"
  | QdrantSearch "real list" real real
  | QdrantUpsert "QdrantPoint list"
  | GeminiGenerate jsstring

record env =
  now :: "nat \<Rightarrow> nat"
  uuid :: "nat \<Rightarrow> jsstring"
  redis_get_fault :: "nat \<Rightarrow> thrown option"
  redis_setex_fault :: "nat \<Rightarrow> thrown option"
  redis_del_fault :: "nat \<Rightarrow> thrown option"
  redis_expire_fault :: "nat \<Rightarrow> thrown option"
  jina :: "nat \<Rightarrow> jsstring list \<Rightarrow> thrown + jina_response"
  qdrant_search :: "nat \<Rightarrow> real list \<Rightarrow> real \<Rightarrow> real \<Rightarrow> thrown + ScoredPoint list"
  qdrant_upsert_fault :: "nat \<Rightarrow> thrown option"
  gemini :: "nat \<Rightarrow> jsstring \<Rightarrow> thrown + jsstring"

record world =
  redis :: "jsstring \<rightharpoonup> nat \<times> ChatSession"
  points :: "jsstring \<rightharpoonup> QdrantPoint"
  trace :: "event list"
  tick :: nat

text \<open>
  An asynchronous computation takes the world and returns a value or what it threw,
  with the world it leaves behind: effects made before a throw stay.
\<close>

type_synonym 'a io = "world \<Rightarrow> (thrown + 'a) \<times> world"

definition io_return :: "'a \<Rightarrow> 'a io" where
  "io_return x w = (Inr x, w)"

definition io_throw :: "thrown \<Rightarrow> 'a io" where
  "io_throw e w = (Inl e, w)"

definition io_bind :: "'a io \<Rightarrow> ('a \<Rightarrow> 'b io) \<Rightarrow> 'b io" where
  "io_bind m f w = (case m w of (Inl e, w') \<Rightarrow> (Inl e, w') | (Inr x, w') \<Rightarrow> f x w')"

definition io_catch :: "'a io \<Rightarrow> (thrown \<Rightarrow> 'a io) \<Rightarrow> 'a io" where
  "io_catch m h w = (case m w of (Inl e, w') \<Rightarrow> h e w' | (Inr x, w') \<Rightarrow> (Inr x, w'))"

text \<open>One step of the outside world: the event is recorded and the step counter advances.\<close>

definition step :: "event list \<Rightarrow> world \<Rightarrow> world" where
  "step evs w = w\<lparr>trace := trace w @ evs, tick := Suc (tick w)\<rparr>"

definition new_Date :: "env \<Rightarrow> nat io" where
  "new_Date e w = (Inr (now e (tick w)), step [] w)"

definition uuidv4 :: "env \<Rightarrow> jsstring io" where
  "uuidv4 e w = (Inr (uuid e (tick w)), step [] w)"

subsection \<open>The Redis client\<close>

definition client_get :: "env \<Rightarrow> jsstring \<Rightarrow> ChatSession option io" where
  "client_get e key w =
     (case redis_get_fault e (tick w) of
        Some err \<Rightarrow> (Inl err, step [RedisGet key] w)
      | None \<Rightarrow> (Inr (map_option snd (redis w key)), step [RedisGet key] w))"

definition client_setex :: "env \<Rightarrow> jsstring \<Rightarrow> nat \<Rightarrow> ChatSession \<Rightarrow> unit io" where
  "client_setex e key ttl v w =
     (case redis_setex_fault e (tick w) of
        Some err \<Rightarrow> (Inl err, step [RedisSetex key ttl v] w)
      | None \<Rightarrow> (Inr (), step [RedisSetex key ttl v] (w\<lparr>redis := (redis w)(key \<mapsto> (ttl, v))\<rparr>)))"

text \<open>\<open>DEL\<close> answers with the number of keys it removed.\<close>

definition client_del :: "env \<Rightarrow> jsstring \<Rightarrow> nat io" where
  "client_del e key w =
     (case redis_del_fault e (tick w) of
        Some err \<Rightarrow> (Inl err, step [RedisDel key] w)
      | None \<Rightarrow> (Inr (if key \<in> dom (redis w) then 1 else 0),
                 step [RedisDel key] (w\<lparr>redis := (redis w)(key := None)\<rparr>)))"

definition client_expire :: "env \<Rightarrow> jsstring \<Rightarrow> nat \<Rightarrow> unit io" where
  "client_expire e key ttl w =
     (case redis_expire_fault e (tick w) of
        Some err \<Rightarrow> (Inl err, step [RedisExpire key ttl] w)
      | None \<Rightarrow> (Inr (),
                 step [RedisExpire key ttl]
                   (w\<lparr>redis := (case redis w key of None \<Rightarrow> redis w
                                 | Some (_, v) \<Rightarrow> (redis w)(key \<mapsto> (ttl, v)))\<rparr>)))"

section \<open>RedisRepository\<close>

definition SESSION_TTL :: nat where
  "SESSION_TTL = 24 * 60 * 60"

definition getSessionKey :: "jsstring \<Rightarrow> jsstring" where
  "getSessionKey sessionId = js ''chat:session:'' @ sessionId"

definition saveSession :: "env \<Rightarrow> ChatSession \<Rightarrow> unit io" where
  "saveSession e session =
     io_catch (client_setex e (getSessionKey (s_id session)) SESSION_TTL session)
       (\<lambda>error. io_throw (InternalServerError (js ''Failed to save chat session'') (Caught error)))"

definition getSession :: "env \<Rightarrow> jsstring \<Rightarrow> ChatSession option io" where
  "getSession e sessionId =
     io_catch
       (io_bind (client_get e (getSessionKey sessionId)) (\<lambda>sessionData.
          case sessionData of
            None \<Rightarrow> io_return None
          | Some session \<Rightarrow> io_return (Some session)))
       (\<lambda>error. io_throw
          (InternalServerError (js ''Failed to retrieve chat session'') (Caught error)))"

definition deleteSession :: "env \<Rightarrow> jsstring \<Rightarrow> bool io" where
  "deleteSession e sessionId =
     io_catch
       (io_bind (client_del e (getSessionKey sessionId)) (\<lambda>result.
          io_return (result > 0)))
       (\<lambda>error. io_throw
          (InternalServerError (js ''Failed to delete chat session'') (Caught error)))"

definition addMessageToSession :: "env \<Rightarrow> jsstring \<Rightarrow> ChatMessage \<Rightarrow> unit io" where
  "addMessageToSession e sessionId msg =
     io_catch
       (io_bind (getSession e sessionId) (\<lambda>session.
          case session of
            None \<Rightarrow>
              io_bind (new_Date e) (\<lambda>created.
              io_bind (new_Date e) (\<lambda>updated.
              saveSession e
                \<lparr>s_id = sessionId, messages = [msg], createdAt = created,
                 updatedAt = updated\<rparr>))
          | Some s \<Rightarrow>
              io_bind (new_Date e) (\<lambda>updated.
              saveSession e (s\<lparr>messages := messages s @ [msg], updatedAt := updated\<rparr>))))
       (\<lambda>error. io_throw
          (InternalServerError (js ''Failed to add message to session'') (Caught error)))"

definition extendSessionTTL :: "env \<Rightarrow> jsstring \<Rightarrow> unit io" where
  "extendSessionTTL e sessionId =
     io_catch (client_expire e (getSessionKey sessionId) SESSION_TTL)
       (\<lambda>error. io_return ())"

section \<open>EmbeddingService\<close>

definition axios_post :: "env \<Rightarrow> jsstring list \<Rightarrow> jina_response io" where
  "axios_post e input w = (jina e (tick w) input, step [JinaPost input] w)"

definition generateEmbeddings :: "env \<Rightarrow> jsstring list \<Rightarrow> real list list io" where
  "generateEmbeddings e texts =
     io_catch
       (if length texts = 0 then io_return []
        else
          io_bind (axios_post e (map (take 8192) texts)) (\<lambda>response.
            case response of
              DataItems items \<Rightarrow> io_return items
            | Embeddings embeddings \<Rightarrow> io_return embeddings
            | NoEmbeddings \<Rightarrow> io_throw (JsError (js ''No embeddings returned from Jina API''))))
       (\<lambda>error.
          case error of
            AxiosError status data_message msg \<Rightarrow>
              io_throw
                (ExternalServiceError (js ''Jina Embeddings API'')
                   (case data_message of
                      None \<Rightarrow> msg
                    | Some m \<Rightarrow> if m = [] then msg else m)
                   (StatusInfo
                      (case status of
                         None \<Rightarrow> 500
                       | Some st \<Rightarrow> if st = 0 then 500 else st)
                      msg))
          | _ \<Rightarrow>
              io_throw
                (ExternalServiceError (js ''Jina Embeddings API'')
                   (js ''Unknown error occurred'') NoDetails))"

definition generateSingleEmbedding :: "env \<Rightarrow> jsstring \<Rightarrow> real list io" where
  "generateSingleEmbedding e text =
     io_bind (generateEmbeddings e [text]) (\<lambda>embeddings.
       io_return (case embeddings of [] \<Rightarrow> [] | v # _ \<Rightarrow> v))"

text \<open>
  The loop of \<open>batchEmbeddings\<close>, with \<open>batchSize\<close> at its default 10 (its only
  caller, \<open>indexDocuments\<close>, passes none). The pause between batches has no effect
  on the result.
\<close>

function batchEmbeddings_loop ::
    "env \<Rightarrow> jsstring list \<Rightarrow> nat \<Rightarrow> real list list \<Rightarrow> real list list io" where
  "batchEmbeddings_loop e texts i results w =
     (if i < length texts then
        (case generateEmbeddings e (take 10 (drop i texts)) w of
           (Inl err, w') \<Rightarrow> (Inl err, w')
         | (Inr batch, w') \<Rightarrow> batchEmbeddings_loop e texts (i + 10) (results @ batch) w')
      else (Inr results, w))"
  by pat_completeness auto
termination
  by (relation "measure (\<lambda>(e, texts, i, results, w). length texts - i)") auto

declare batchEmbeddings_loop.simps [simp del]

definition batchEmbeddings :: "env \<Rightarrow> jsstring list \<Rightarrow> real list list io" where
  "batchEmbeddings e texts =
     (if length texts = 0 then io_return [] else batchEmbeddings_loop e texts 0 [])"

section \<open>QdrantRepository\<close>

definition client_upsert :: "env \<Rightarrow> QdrantPoint list \<Rightarrow> unit io" where
  "client_upsert e pts w =
     (case qdrant_upsert_fault e (tick w) of
        Some err \<Rightarrow> (Inl err, step [QdrantUpsert pts] w)
      | None \<Rightarrow> (Inr (),
                 step [QdrantUpsert pts]
                   (w\<lparr>points := fold (\<lambda>p m. m(p_id p \<mapsto> p)) pts (points w)\<rparr>)))"

definition client_search :: "env \<Rightarrow> real list \<Rightarrow> real \<Rightarrow> real \<Rightarrow> ScoredPoint list io" where
  "client_search e vector limit score_threshold w =
     (qdrant_search e (tick w) vector limit score_threshold,
      step [QdrantSearch vector limit score_threshold] w)"

definition upsertDocuments :: "env \<Rightarrow> DocumentChunk list \<Rightarrow> real list list \<Rightarrow> unit io" where
  "upsertDocuments e documents embeddings =
     io_catch
       (if length documents \<noteq> length embeddings then
          io_throw (JsError (js ''Documents and embeddings arrays must have the same length''))
        else
          client_upsert e
            (map (\<lambda>(index, doc).
                    \<lparr>p_id = c_id doc,
                     p_vector = (if index < length embeddings then embeddings ! index else []),
                     p_content = content doc,
                     p_metadata = metadata doc\<rparr>)
               (enumerate 0 documents)))
       (\<lambda>error. io_throw
          (InternalServerError (js ''Failed to store documents in vector database'')
             (Caught error)))"

text \<open>
  \<open>String(point.id)\<close>. A numeric id is an integer that a JavaScript number holds
  exactly and prints with all its digits (below \<open>2\<^sup>5\<^sup>3\<close>); larger ids are outside
  the model.
\<close>

definition String_id :: "point_id \<Rightarrow> jsstring" where
  "String_id i = (case i of IdString s \<Rightarrow> s | IdNumber n \<Rightarrow> decimal n)"

definition searchSimilar ::
    "env \<Rightarrow> real list \<Rightarrow> real \<Rightarrow> real \<Rightarrow> VectorSearchResult list io" where
  "searchSimilar e queryEmbedding limit threshold =
     io_catch
       (io_bind (client_search e queryEmbedding limit threshold) (\<lambda>searchResult.
          io_return
            (map (\<lambda>point.
                    \<lparr>r_id = String_id (sp_id point),
                     r_score = (if sp_score point = 0 then 0 else sp_score point),
                     payload =
                       \<lparr>c_id = String_id (sp_id point),
                        content =
                          (case sp_payload point of
                             Some (Some c, _) \<Rightarrow> c
                           | _ \<Rightarrow> []),
                        metadata =
                          (case sp_payload point of
                             Some (_, Some m) \<Rightarrow> m
                           | _ \<Rightarrow> \<lparr>source = js ''unknown'', title = None, url = None,
                                    timestamp = None\<rparr>),
                        score = None\<rparr>\<rparr>)
               searchResult)))
       (\<lambda>error. io_throw
          (InternalServerError (js ''Failed to search vector database'') (Caught error)))"

section \<open>LLMService\<close>

definition nl :: jsstring where
  "nl = [0xA]"

definition buildContext :: "DocumentChunk list \<Rightarrow> jsstring" where
  "buildContext chunks =
     (if length chunks = 0 then js ''No relevant articles found for this query.''
      else
        join nl
          (map (\<lambda>(index, chunk).
                  let source_text =
                        (case title (metadata chunk) of
                           Some t \<Rightarrow>
                             if t \<noteq> [] then t
                             else if source (metadata chunk) \<noteq> [] then source (metadata chunk)
                             else js ''Unknown Source''
                         | None \<Rightarrow>
                             if source (metadata chunk) \<noteq> [] then source (metadata chunk)
                             else js ''Unknown Source'');
                      url_text =
                        (case url (metadata chunk) of
                           Some u \<Rightarrow> if u \<noteq> [] then js '' ('' @ u @ js '')'' else []
                         | None \<Rightarrow> []);
                      timestamp_text =
                        (case timestamp (metadata chunk) of
                           Some t \<Rightarrow> if t \<noteq> [] then js '' - '' @ t else []
                         | None \<Rightarrow> [])
                  in nl @ js ''Article '' @ decimal (index + 1) @ js '': '' @ source_text
                       @ url_text @ timestamp_text @ nl
                       @ js ''Content: '' @ content chunk @ nl
                       @ js ''---'')
             (enumerate 0 chunks)))"

definition formatChatHistory :: "ChatMessage list \<Rightarrow> jsstring" where
  "formatChatHistory msgs =
     (if length msgs = 0 then js ''No previous conversation.''
      else
        join nl
          (map (\<lambda>msg. toUpperCase (role_name (m_role msg)) @ js '': '' @ m_content msg)
             (slice_last 10 msgs)))"

definition systemPrompt :: "jsstring \<Rightarrow> jsstring \<Rightarrow> jsstring \<Rightarrow> jsstring" where
  "systemPrompt context conversationHistory userQuery =
     js ''You are an intelligent assistant that answers questions based on provided news articles context. '' @ nl
     @ nl
     @ js ''INSTRUCTIONS:'' @ nl
     @ js ''1. Use ONLY the information provided in the context to answer questions'' @ nl
     @ js ''2. If the context doesn't contain enough information, clearly state what's missing'' @ nl
     @ js ''3. Provide accurate, concise, and helpful responses'' @ nl
     @ js ''4. Cite sources when possible by mentioning the article titles or sources'' @ nl
     @ js ''5. If asked about current events, remind users that information is based on the provided articles'' @ nl
     @ js ''6. Be conversational but professional'' @ nl
     @ js ''7. If no relevant information is found, politely explain this limitation'' @ nl
     @ nl
     @ js ''CONTEXT:'' @ nl
     @ context @ nl
     @ nl
     @ js ''CONVERSATION HISTORY:'' @ nl
     @ conversationHistory @ nl
     @ nl
     @ js ''USER QUESTION: '' @ userQuery @ nl
     @ nl
     @ js ''Please provide a helpful response based on the context provided.''"

definition generateContent :: "env \<Rightarrow> jsstring \<Rightarrow> jsstring io" where
  "generateContent e prompt w = (gemini e (tick w) prompt, step [GeminiGenerate prompt] w)"

definition generateResponse ::
    "env \<Rightarrow> jsstring \<Rightarrow> DocumentChunk list \<Rightarrow> ChatMessage list \<Rightarrow> jsstring io" where
  "generateResponse e userQuery retrievedChunks chatHistory =
     io_catch
       (let context = buildContext retrievedChunks;
            conversationHistory = formatChatHistory chatHistory
        in io_bind (generateContent e (systemPrompt context conversationHistory userQuery))
             (\<lambda>text.
                if text = [] \<or> length (trim text) = 0 then
                  io_throw (JsError (js ''Empty response from Gemini API''))
                else io_return (trim text)))
       (\<lambda>error.
          if instanceof_Error error then
            io_throw (ExternalServiceError (js ''Gemini API'') (error_message error) (Caught error))
          else
            io_throw
              (ExternalServiceError (js ''Gemini API'') (js ''Unknown error occurred'') NoDetails))"

section \<open>RAGService\<close>

definition processQuery :: "env \<Rightarrow> jsstring \<Rightarrow> jsstring \<Rightarrow> real \<Rightarrow> real \<Rightarrow> ChatResponse io" where
  "processQuery e sessionId userMessage retrievalLimit similarityThreshold =
     io_catch
       (io_bind (uuidv4 e) (\<lambda>userMessageId.
        io_bind (new_Date e) (\<lambda>user_time.
        io_bind
          (addMessageToSession e sessionId
             \<lparr>m_id = userMessageId, m_role = user, m_content = userMessage,
              m_timestamp = user_time\<rparr>) (\<lambda>_.
        io_bind (getSession e sessionId) (\<lambda>session.
        io_bind (generateSingleEmbedding e userMessage) (\<lambda>queryEmbedding.
        io_bind (searchSimilar e queryEmbedding retrievalLimit similarityThreshold)
          (\<lambda>searchResults.
        io_bind
          (generateResponse e userMessage
             (map (\<lambda>result. (payload result)\<lparr>score := Some (r_score result)\<rparr>) searchResults)
             (slice_last 10 (case session of None \<Rightarrow> [] | Some s \<Rightarrow> messages s)))
          (\<lambda>responseText.
        io_bind (uuidv4 e) (\<lambda>assistantMessageId.
        io_bind (new_Date e) (\<lambda>assistant_time.
        io_bind
          (addMessageToSession e sessionId
             \<lparr>m_id = assistantMessageId, m_role = assistant, m_content = responseText,
              m_timestamp = assistant_time\<rparr>) (\<lambda>_.
        io_bind (extendSessionTTL e sessionId) (\<lambda>_.
        io_return
          \<lparr>message = responseText, session_id = sessionId, message_id = assistantMessageId,
           sources =
             map (\<lambda>result. (payload result)\<lparr>score := Some (r_score result)\<rparr>)
               searchResults\<rparr>))))))))))))
       (\<lambda>error. io_throw
          (InternalServerError (js ''Failed to process chat query'') (Caught error)))"

definition getChatHistory :: "env \<Rightarrow> jsstring \<Rightarrow> ChatMessage list io" where
  "getChatHistory e sessionId =
     io_catch
       (io_bind (getSession e sessionId) (\<lambda>session.
          io_return (case session of None \<Rightarrow> [] | Some s \<Rightarrow> messages s)))
       (\<lambda>error. io_throw
          (InternalServerError (js ''Failed to retrieve chat history'') (Caught error)))"

definition clearChatHistory :: "env \<Rightarrow> jsstring \<Rightarrow> bool io" where
  "clearChatHistory e sessionId =
     io_catch (deleteSession e sessionId)
       (\<lambda>error. io_throw
          (InternalServerError (js ''Failed to clear chat history'') (Caught error)))"

definition indexDocuments :: "env \<Rightarrow> DocumentChunk list \<Rightarrow> unit io" where
  "indexDocuments e documents =
     io_catch
       (if length documents = 0 then io_return ()
        else
          io_bind (batchEmbeddings e (map content documents)) (\<lambda>embeddings.
            upsertDocuments e documents embeddings))
       (\<lambda>error. io_throw (InternalServerError (js ''Failed to index documents'') (Caught error)))"

definition searchSimilarDocuments ::
    "env \<Rightarrow> jsstring \<Rightarrow> real \<Rightarrow> real \<Rightarrow> VectorSearchResult list io" where
  "searchSimilarDocuments e query limit threshold =
     io_catch
       (io_bind (generateSingleEmbedding e query) (\<lambda>queryEmbedding.
          searchSimilar e queryEmbedding limit threshold))
       (\<lambda>error. io_throw (InternalServerError (js ''Failed to search documents'') (Caught error)))"

section \<open>ChatController\<close>

text \<open>
  The request handlers, as functions of the validation errors that express-validator
  found and of the fields of the request body. A handler's \<open>next(error)\<close> is the
  thrown value of the model. A missing \<open>limit\<close> or \<open>threshold\<close> takes the default
  of the destructuring pattern.
\<close>

definition chat :: "env \<Rightarrow> jsstring list \<Rightarrow> jsstring \<Rightarrow> jsstring \<Rightarrow> ChatResponse io" where
  "chat e errors session user_message =
     (if errors \<noteq> [] then io_throw (ValidationError (js ''Invalid request data'') (ErrorList errors))
      else processQuery e session user_message 5 (7 / 10))"

definition searchDocuments ::
    "env \<Rightarrow> jsstring list \<Rightarrow> jsstring \<Rightarrow> real option \<Rightarrow> real option
      \<Rightarrow> VectorSearchResult list io" where
  "searchDocuments e errors query limit threshold =
     (if errors \<noteq> [] then io_throw (ValidationError (js ''Invalid request data'') (ErrorList errors))
      else
        searchSimilarDocuments e query
          (min (case limit of None \<Rightarrow> 10 | Some l \<Rightarrow> l) 20)
          (max (case threshold of None \<Rightarrow> 6 / 10 | Some t \<Rightarrow> t) (3 / 10)))"

section \<open>The context assembly of the specification\<close>

text \<open>
  The specification's words for \<open>assembleContext\<close>: each chunk is a labeled article
  (index, title or else source, the URL and the timestamp when there are any, the
  content), the articles follow the order of the chunks, and no chunks give the
  sentinel text.
\<close>

definition heading :: "DocumentChunk \<Rightarrow> jsstring" where
  "heading chunk =
     hd (filter (\<lambda>s. s \<noteq> [])
           ((case title (metadata chunk) of None \<Rightarrow> [] | Some t \<Rightarrow> [t])
            @ [source (metadata chunk), js ''Unknown Source'']))"

definition optional_part :: "jsstring \<Rightarrow> jsstring option \<Rightarrow> jsstring \<Rightarrow> jsstring" where
  "optional_part before field after =
     (case field of None \<Rightarrow> [] | Some v \<Rightarrow> if v = [] then [] else before @ v @ after)"

definition article :: "nat \<Rightarrow> DocumentChunk \<Rightarrow> jsstring" where
  "article k chunk =
     nl @ js ''Article '' @ decimal k @ js '': '' @ heading chunk
     @ optional_part (js '' ('') (url (metadata chunk)) (js '')'')
     @ optional_part (js '' - '') (timestamp (metadata chunk)) []
     @ nl @ js ''Content: '' @ content chunk @ nl @ js ''---''"

definition assembleContext :: "DocumentChunk list \<Rightarrow> jsstring" where
  "assembleContext chunks =
     (case chunks of
        [] \<Rightarrow> js ''No relevant articles found for this query.''
      | _ \<Rightarrow> join nl (map (\<lambda>k. article (Suc k) (chunks ! k)) [0..<length chunks]))"

text \<open>
  The specification's words for the history in the prompt: role-tagged lines, oldest
  first, of the last 10 messages at most.
\<close>

definition role_tag :: "role \<Rightarrow> jsstring" where
  "role_tag r = (case r of user \<Rightarrow> js ''USER'' | assistant \<Rightarrow> js ''ASSISTANT'')"

definition history_lines :: "ChatMessage list \<Rightarrow> jsstring list" where
  "history_lines h =
     map (\<lambda>m. role_tag (m_role m) @ js '': '' @ m_content m) (drop (length h - 10) h)"

section \<open>Assumptions on the environment\<close>

text \<open>The Redis server answers the reads and writes of sessions.\<close>

definition store_reachable :: "env \<Rightarrow> bool" where
  "store_reachable e \<longleftrightarrow> (\<forall>n. redis_get_fault e n = None \<and> redis_setex_fault e n = None)"

text \<open>The wall clock is never set back.\<close>

definition clock_monotone :: "env \<Rightarrow> bool" where
  "clock_monotone e \<longleftrightarrow> (\<forall>m n. m \<le> n \<longrightarrow> now e m \<le> now e n)"

text \<open>
  The sessions in the store are as the repository writes them: under the key of their
  own id, and stamped with a time that the clock has reached.
\<close>

definition sessions_keyed :: "world \<Rightarrow> bool" where
  "sessions_keyed w \<longleftrightarrow>
     (\<forall>sid ttl s. redis w (getSessionKey sid) = Some (ttl, s) \<longrightarrow> s_id s = sid)"

definition sessions_stamped :: "env \<Rightarrow> world \<Rightarrow> bool" where
  "sessions_stamped e w \<longleftrightarrow>
     (\<forall>key ttl s. redis w key = Some (ttl, s) \<longrightarrow> updatedAt s \<le> now e (tick w))"

section \<open>Auxiliary notions for the proofs\<close>

text \<open>
  The steps of \<open>processQuery\<close> that follow the reading of the session, as a function
  of the session read; \<open>processQuery\<close> is the composition of its first steps with
  this remainder (lemma \<open>processQuery_unfold\<close>).
\<close>

definition processQuery_tail ::
    "env \<Rightarrow> jsstring \<Rightarrow> jsstring \<Rightarrow> real \<Rightarrow> real \<Rightarrow> ChatSession option \<Rightarrow> ChatResponse io" where
  "processQuery_tail e sessionId userMessage retrievalLimit similarityThreshold session =
        io_bind (generateSingleEmbedding e userMessage) (\<lambda>queryEmbedding.
        io_bind (searchSimilar e queryEmbedding retrievalLimit similarityThreshold)
          (\<lambda>searchResults.
        io_bind
          (generateResponse e userMessage
             (map (\<lambda>result. (payload result)\<lparr>score := Some (r_score result)\<rparr>) searchResults)
             (slice_last 10 (case session of None \<Rightarrow> [] | Some s \<Rightarrow> messages s)))
          (\<lambda>responseText.
        io_bind (uuidv4 e) (\<lambda>assistantMessageId.
        io_bind (new_Date e) (\<lambda>assistant_time.
        io_bind
          (addMessageToSession e sessionId
             \<lparr>m_id = assistantMessageId, m_role = assistant, m_content = responseText,
              m_timestamp = assistant_time\<rparr>) (\<lambda>_.
        io_bind (extendSessionTTL e sessionId) (\<lambda>_.
        io_return
          \<lparr>message = responseText, session_id = sessionId, message_id = assistantMessageId,
           sources =
             map (\<lambda>result. (payload result)\<lparr>score := Some (r_score result)\<rparr>)
               searchResults\<rparr>)))))))"

text \<open>
  On a reachable store \<open>processQuery\<close> consults the embedding provider at this step
  of the world: after the uuid, the clock, the append (a read, one clock reading for an
  existing session and two for a new one, a write) and the read of the history. The
  search follows at the next step and the generation at the one after.
\<close>

definition embedding_step :: "world \<Rightarrow> jsstring \<Rightarrow> nat" where
  "embedding_step w sid =
     tick w + (case redis w (getSessionKey sid) of None \<Rightarrow> 7 | Some _ \<Rightarrow> 6)"

text \<open>The vector that \<open>generateSingleEmbedding\<close> returns for an answer of the provider.\<close>

definition first_embedding :: "jina_response \<Rightarrow> real list" where
  "first_embedding r =
     (case (case r of DataItems items \<Rightarrow> items | Embeddings embeddings \<Rightarrow> embeddings
            | NoEmbeddings \<Rightarrow> [])
      of [] \<Rightarrow> [] | v # _ \<Rightarrow> v)"

text \<open>A computation keeps a property of the world, whatever it returns or throws.\<close>

definition preserves :: "(world \<Rightarrow> bool) \<Rightarrow> 'a io \<Rightarrow> bool" where
  "preserves P m \<longleftrightarrow> (\<forall>w. P w \<longrightarrow> P (snd (m w)))"

text \<open>A computation only appends to the trace, and only events of one kind.\<close>

definition trace_only :: "(event \<Rightarrow> bool) \<Rightarrow> 'a io \<Rightarrow> bool" where
  "trace_only Q m \<longleftrightarrow>
     (\<forall>w. \<exists>evs. trace (snd (m w)) = trace w @ evs \<and> (\<forall>ev \<in> set evs. Q ev))"

fun is_redis_event :: "event \<Rightarrow> bool" where
  "is_redis_event (RedisGet _) = True"
| "is_redis_event (RedisSetex _ _ _) = True"
| "is_redis_event (RedisDel _) = True"
| "is_redis_event (RedisExpire _ _) = True"
| "is_redis_event _ = False"

text \<open>Two computations return or throw the same, from every world.\<close>

definition same_result :: "'a io \<Rightarrow> 'a io \<Rightarrow> bool" where
  "same_result m m' \<longleftrightarrow> (\<forall>w. fst (m w) = fst (m' w))"

fun is_upsert :: "event \<Rightarrow> bool" where
  "is_upsert (QdrantUpsert _) = True"
| "is_upsert _ = False"

text \<open>The session stored for an id contains a message.\<close>

definition holds_user_message :: "jsstring \<Rightarrow> ChatMessage \<Rightarrow> world \<Rightarrow> bool" where
  "holds_user_message sid msg w \<longleftrightarrow>
     (\<exists>ttl s. redis w (getSessionKey sid) = Some (ttl, s) \<and> msg \<in> set (messages s))"

section \<open>Example environments\<close>

definition quiet_env :: env where
  "quiet_env =
     \<lparr>now = (\<lambda>n. 1000 + n), uuid = (\<lambda>n. js ''id-'' @ decimal n),
      redis_get_fault = (\<lambda>n. None), redis_setex_fault = (\<lambda>n. None),
      redis_del_fault = (\<lambda>n. None), redis_expire_fault = (\<lambda>n. None),
      jina = (\<lambda>n texts. Inr (DataItems (map (\<lambda>t. [1, 0]) texts))),
      qdrant_search = (\<lambda>n v l t. Inr []),
      qdrant_upsert_fault = (\<lambda>n. None),
      gemini = (\<lambda>n p. Inr (js ''AI is the study of agents.''))\<rparr>"

text \<open>A generation provider that answers with blanks only.\<close>

definition silent_env :: env where
  "silent_env = quiet_env\<lparr>gemini := (\<lambda>n p. Inr (js ''  ''))\<rparr>"

text \<open>An embedding provider that answers with one vector, whatever it is sent.\<close>

definition short_env :: env where
  "short_env = quiet_env\<lparr>jina := (\<lambda>n texts. Inr (DataItems [[1, 0]]))\<rparr>"

text \<open>A Redis server whose \<open>EXPIRE\<close> always fails.\<close>

definition no_expire_env :: env where
  "no_expire_env = quiet_env\<lparr>redis_expire_fault := (\<lambda>n. Some (JsError (js ''READONLY'')))\<rparr>"

text \<open>An embedding provider that is down, and a vector store that is down.\<close>

definition no_embedding_env :: env where
  "no_embedding_env =
     quiet_env\<lparr>jina := (\<lambda>n texts. Inl (AxiosError (Some 503) None (js ''Service Unavailable'')))\<rparr>"

definition no_search_env :: env where
  "no_search_env =
     quiet_env\<lparr>qdrant_search := (\<lambda>n v l t. Inl (JsError (js ''connection refused'')))\<rparr>"

definition two_chunks :: "DocumentChunk list" where
  "two_chunks =
     [\<lparr>c_id = js ''c1'', content = js ''AI is...'',
       metadata = \<lparr>source = js ''wire'', title = Some (js ''On AI''), url = None,
                   timestamp = None\<rparr>, score = None\<rparr>,
      \<lparr>c_id = js ''c2'', content = js ''ML is...'',
       metadata = \<lparr>source = js ''wire'', title = None, url = None, timestamp = None\<rparr>,
       score = None\<rparr>]"

definition empty_world :: world where
  "empty_world = \<lparr>redis = Map.empty, points = Map.empty, trace = [], tick = 0\<rparr>"

definition hello :: ChatMessage where
  "hello = \<lparr>m_id = js ''m1'', m_role = user, m_content = js ''hello'', m_timestamp = 900\<rparr>"

definition again :: ChatMessage where
  "again = \<lparr>m_id = js ''m2'', m_role = user, m_content = js ''again'', m_timestamp = 950\<rparr>"

definition one_session_world :: world where
  "one_session_world =
     \<lparr>redis = [getSessionKey (js ''s1'') \<mapsto>
               (100, \<lparr>s_id = js ''s1'', messages = [hello], createdAt = 900, updatedAt = 900\<rparr>)],
      points = Map.empty, trace = [], tick = 0\<rparr>"

section \<open>Basic facts\<close>

lemmas io_defs = io_bind_def io_catch_def io_return_def io_throw_def

lemma tick_step [simp]: "tick (step evs w) = Suc (tick w)"
  by (simp add: step_def)

lemma trace_step [simp]: "trace (step evs w) = trace w @ evs"
  by (simp add: step_def)

lemma redis_step [simp]: "redis (step evs w) = redis w"
  by (simp add: step_def)

lemma points_step [simp]: "points (step evs w) = points w"
  by (simp add: step_def)

lemma getSessionKey_eq [simp]: "getSessionKey a = getSessionKey b \<longleftrightarrow> a = b"
  by (simp add: getSessionKey_def)

lemma take_take_map [simp]: "map (take n \<circ> take n) xs = map (take n) xs"
  by (induction xs) simp_all

lemma join_nonempty: "x \<noteq> [] \<Longrightarrow> join sep (x # xs) \<noteq> []"
  by (cases xs) simp_all

lemma quiet_env_reachable: "store_reachable quiet_env"
  by (simp add: store_reachable_def quiet_env_def)

lemma quiet_env_monotone: "clock_monotone quiet_env"
  by (simp add: clock_monotone_def quiet_env_def)

subsection \<open>The session repository on a reachable store\<close>

lemma addMessageToSession_absent:
  assumes "store_reachable e" and "redis w (getSessionKey sid) = None"
  shows "addMessageToSession e sid msg w =
     (Inr (),
      w\<lparr>redis := (redis w)(getSessionKey sid \<mapsto>
           (SESSION_TTL, \<lparr>s_id = sid, messages = [msg], createdAt = now e (Suc (tick w)),
              updatedAt = now e (Suc (Suc (tick w)))\<rparr>)),
        trace := trace w @ [RedisGet (getSessionKey sid),
           RedisSetex (getSessionKey sid) SESSION_TTL
             \<lparr>s_id = sid, messages = [msg], createdAt = now e (Suc (tick w)),
              updatedAt = now e (Suc (Suc (tick w)))\<rparr>],
        tick := tick w + 4\<rparr>)"
  using assms
  by (simp add: addMessageToSession_def getSession_def saveSession_def client_get_def
      client_setex_def new_Date_def io_defs store_reachable_def step_def)

lemma addMessageToSession_present:
  assumes "store_reachable e" and "redis w (getSessionKey sid) = Some (ttl, s)" and "s_id s = sid"
  shows "addMessageToSession e sid msg w =
     (Inr (),
      w\<lparr>redis := (redis w)(getSessionKey sid \<mapsto>
           (SESSION_TTL, s\<lparr>messages := messages s @ [msg], updatedAt := now e (Suc (tick w))\<rparr>)),
        trace := trace w @ [RedisGet (getSessionKey sid),
           RedisSetex (getSessionKey sid) SESSION_TTL
             (s\<lparr>messages := messages s @ [msg], updatedAt := now e (Suc (tick w))\<rparr>)],
        tick := tick w + 3\<rparr>)"
  using assms
  by (simp add: addMessageToSession_def getSession_def saveSession_def client_get_def
      client_setex_def new_Date_def io_defs store_reachable_def step_def)

lemma getSession_reachable:
  assumes "store_reachable e"
  shows "getSession e sid w =
     (Inr (map_option snd (redis w (getSessionKey sid))), step [RedisGet (getSessionKey sid)] w)"
  using assms
  by (simp add: getSession_def client_get_def io_defs store_reachable_def split: option.splits)

subsection \<open>The assumptions on the store are invariants of the repository\<close>

lemma empty_world_stamped: "sessions_stamped e empty_world"
  by (simp add: sessions_stamped_def empty_world_def)

lemma sessions_keyed_addMessageToSession:
  assumes "sessions_keyed w"
  shows "sessions_keyed (snd (addMessageToSession e sid msg w))"
  using assms unfolding sessions_keyed_def
  by (auto simp: addMessageToSession_def getSession_def saveSession_def client_get_def
      client_setex_def new_Date_def io_defs split: option.splits if_splits)

lemma clock_le:
  assumes "clock_monotone e" and "updatedAt s \<le> now e m" and "m \<le> n"
  shows "updatedAt s \<le> now e n"
proof -
  from assms(1,3) have "now e m \<le> now e n" by (simp add: clock_monotone_def)
  with assms(2) show ?thesis by simp
qed

lemma sessions_stamped_addMessageToSession:
  assumes "clock_monotone e" and "sessions_stamped e w"
  shows "sessions_stamped e (snd (addMessageToSession e sid msg w))"
  unfolding sessions_stamped_def
proof (intro allI impI)
  fix key ttl s
  let ?w' = "snd (addMessageToSession e sid msg w)"
  assume st: "redis ?w' key = Some (ttl, s)"
  have tick: "tick w \<le> tick ?w'"
    by (auto simp: addMessageToSession_def getSession_def saveSession_def client_get_def
      client_setex_def new_Date_def io_defs split: option.splits)
  have "redis w key = Some (ttl, s)
        \<or> (updatedAt s = now e (Suc (tick w)) \<and> Suc (tick w) \<le> tick ?w')
        \<or> (updatedAt s = now e (Suc (Suc (tick w))) \<and> Suc (Suc (tick w)) \<le> tick ?w')"
    using st
    by (auto simp: addMessageToSession_def getSession_def saveSession_def client_get_def
      client_setex_def new_Date_def io_defs split: option.splits if_splits)
  then show "updatedAt s \<le> now e (tick ?w')"
  proof (elim disjE conjE)
    assume "redis w key = Some (ttl, s)"
    with assms(2) have "updatedAt s \<le> now e (tick w)" by (auto simp: sessions_stamped_def)
    with assms(1) show ?thesis using tick by (rule clock_le)
  next
    assume "updatedAt s = now e (Suc (tick w))" and "Suc (tick w) \<le> tick ?w'"
    with assms(1) show ?thesis by (simp add: clock_monotone_def)
  next
    assume "updatedAt s = now e (Suc (Suc (tick w)))" and "Suc (Suc (tick w)) \<le> tick ?w'"
    with assms(1) show ?thesis by (simp add: clock_monotone_def)
  qed
qed
subsection \<open>The embedding request\<close>

lemma generateEmbeddings_nonempty:
  "texts \<noteq> [] \<Longrightarrow>
   generateEmbeddings e texts w =
     io_catch
       (io_bind (axios_post e (map (take 8192) texts)) (\<lambda>response.
            case response of
              DataItems items \<Rightarrow> io_return items
            | Embeddings embeddings \<Rightarrow> io_return embeddings
            | NoEmbeddings \<Rightarrow> io_throw (JsError (js ''No embeddings returned from Jina API''))))
       (\<lambda>error.
          case error of
            AxiosError status data_message msg \<Rightarrow>
              io_throw
                (ExternalServiceError (js ''Jina Embeddings API'')
                   (case data_message of
                      None \<Rightarrow> msg
                    | Some m \<Rightarrow> if m = [] then msg else m)
                   (StatusInfo
                      (case status of
                         None \<Rightarrow> 500
                       | Some st \<Rightarrow> if st = 0 then 500 else st)
                      msg))
          | _ \<Rightarrow>
              io_throw
                (ExternalServiceError (js ''Jina Embeddings API'')
                   (js ''Unknown error occurred'') NoDetails)) w"
  by (simp add: generateEmbeddings_def)

lemma trace_generateEmbeddings:
  "texts \<noteq> [] \<Longrightarrow>
   trace (snd (generateEmbeddings e texts w)) = trace w @ [JinaPost (map (take 8192) texts)]"
  by (auto simp: generateEmbeddings_def axios_post_def io_defs
      split: sum.splits jina_response.splits thrown.splits)

subsection \<open>The rendering of articles\<close>

lemma article_rendering:
  "(\<lambda>(index, chunk).
                  let source_text =
                        (case title (metadata chunk) of
                           Some t \<Rightarrow>
                             if t \<noteq> [] then t
                             else if source (metadata chunk) \<noteq> [] then source (metadata chunk)
                             else js ''Unknown Source''
                         | None \<Rightarrow>
                             if source (metadata chunk) \<noteq> [] then source (metadata chunk)
                             else js ''Unknown Source'');
                      url_text =
                        (case url (metadata chunk) of
                           Some u \<Rightarrow> if u \<noteq> [] then js '' ('' @ u @ js '')'' else []
                         | None \<Rightarrow> []);
                      timestamp_text =
                        (case timestamp (metadata chunk) of
                           Some t \<Rightarrow> if t \<noteq> [] then js '' - '' @ t else []
                         | None \<Rightarrow> [])
                  in nl @ js ''Article '' @ decimal (index + 1) @ js '': '' @ source_text
                       @ url_text @ timestamp_text @ nl
                       @ js ''Content: '' @ content chunk @ nl
                       @ js ''---'') = (\<lambda>(index, chunk). article (Suc index) chunk)"
proof -
  have "js ''Unknown Source'' \<noteq> []" by (simp add: js_def)
  then show ?thesis
    by (auto simp: fun_eq_iff article_def heading_def optional_part_def Let_def
        split: option.splits)
qed

lemma buildContext_articles:
  assumes "chunks \<noteq> []"
  shows "buildContext chunks
         = join nl (map (\<lambda>k. article (Suc k) (chunks ! k)) [0..<length chunks])"
proof -
  have "map (\<lambda>(index, chunk). article (Suc index) chunk) (enumerate 0 chunks)
        = map (\<lambda>k. article (Suc k) (chunks ! k)) [0..<length chunks]"
    by (rule nth_equalityI) (simp_all add: nth_enumerate_eq)
  with assms show ?thesis
    unfolding buildContext_def article_rendering by simp
qed

subsection \<open>Composition of computations\<close>

lemma processQuery_unfold:
  "processQuery e sessionId userMessage retrievalLimit similarityThreshold =
     io_catch
       (io_bind (uuidv4 e) (\<lambda>userMessageId.
        io_bind (new_Date e) (\<lambda>user_time.
        io_bind
          (addMessageToSession e sessionId
             \<lparr>m_id = userMessageId, m_role = user, m_content = userMessage,
              m_timestamp = user_time\<rparr>) (\<lambda>_.
        io_bind (getSession e sessionId)
          (processQuery_tail e sessionId userMessage retrievalLimit similarityThreshold)))))
       (\<lambda>error. io_throw
          (InternalServerError (js ''Failed to process chat query'') (Caught error)))"
  unfolding processQuery_def processQuery_tail_def ..

lemma preservesD: "preserves P m \<Longrightarrow> P w \<Longrightarrow> P (snd (m w))"
  by (simp add: preserves_def)

lemma preserves_return: "preserves P (io_return x)"
  by (simp add: preserves_def io_return_def)

lemma preserves_throw: "preserves P (io_throw x)"
  by (simp add: preserves_def io_throw_def)

lemma preserves_bind:
  assumes "preserves P m" and "\<And>x. preserves P (f x)"
  shows "preserves P (io_bind m f)"
  unfolding preserves_def io_bind_def
proof (intro allI impI)
  fix w assume "P w"
  with assms(1) have 1: "P (snd (m w))" by (rule preservesD)
  show "P (snd (case m w of (Inl e, w') \<Rightarrow> (Inl e, w') | (Inr x, w') \<Rightarrow> f x w'))"
  proof (cases "m w")
    case (Pair r w')
    with 1 have "P w'" by simp
    with Pair assms(2) show ?thesis
      by (cases r) (simp_all add: preserves_def)
  qed
qed

lemma preserves_catch:
  assumes "preserves P m" and "\<And>x. preserves P (h x)"
  shows "preserves P (io_catch m h)"
  unfolding preserves_def io_catch_def
proof (intro allI impI)
  fix w assume "P w"
  with assms(1) have 1: "P (snd (m w))" by (rule preservesD)
  show "P (snd (case m w of (Inl e, w') \<Rightarrow> h e w' | (Inr x, w') \<Rightarrow> (Inr x, w')))"
  proof (cases "m w")
    case (Pair r w')
    with 1 have "P w'" by simp
    with Pair assms(2) show ?thesis
      by (cases r) (simp_all add: preserves_def)
  qed
qed

lemma processQuery_tail_preserves:
  assumes "preserves P (generateSingleEmbedding e msg)"
    and "\<And>v. preserves P (searchSimilar e v limit threshold)"
    and "\<And>c. preserves P (generateResponse e msg c
                 (slice_last 10 (case session of None \<Rightarrow> [] | Some s \<Rightarrow> messages s)))"
    and "preserves P (uuidv4 e)" and "preserves P (new_Date e)"
    and "\<And>m. preserves P (addMessageToSession e sid m)"
    and "preserves P (extendSessionTTL e sid)"
  shows "preserves P (processQuery_tail e sid msg limit threshold session)"
  unfolding processQuery_tail_def
  by (intro preserves_bind preserves_return assms)

subsection \<open>What each operation does to the world\<close>

lemma uuidv4_world: "snd (uuidv4 e w) = step [] w"
  by (simp add: uuidv4_def)

lemma new_Date_world: "snd (new_Date e w) = step [] w"
  by (simp add: new_Date_def)

lemma getSession_world: "snd (getSession e sid w) = step [RedisGet (getSessionKey sid)] w"
  by (simp add: getSession_def client_get_def io_defs split: option.splits)

lemma generateSingleEmbedding_world:
  "snd (generateSingleEmbedding e t w) = step [JinaPost [take 8192 t]] w"
  by (simp add: generateSingleEmbedding_def generateEmbeddings_def axios_post_def io_defs
      split: sum.splits jina_response.splits thrown.splits)

lemma searchSimilar_world:
  "snd (searchSimilar e v l t w) = step [QdrantSearch v l t] w"
  by (simp add: searchSimilar_def client_search_def io_defs split: sum.splits)

lemma generateResponse_world:
  "snd (generateResponse e q c h w)
   = step [GeminiGenerate (systemPrompt (buildContext c) (formatChatHistory h) q)] w"
  by (simp add: generateResponse_def generateContent_def io_defs Let_def split: sum.splits)


lemma trace_only_step:
  assumes "\<And>w. snd (m w) = step evs w" and "\<forall>ev \<in> set evs. Q ev"
  shows "trace_only Q m"
  using assms by (simp add: trace_only_def)

lemma trace_only_weaken:
  assumes "trace_only Q m" and "\<And>ev. Q ev \<Longrightarrow> Q' ev"
  shows "trace_only Q' m"
  using assms unfolding trace_only_def by blast

lemma trace_only_preserves:
  assumes "trace_only Q m"
  shows "preserves (\<lambda>w. \<forall>ev \<in> set (drop n (trace w)). Q ev) m"
  unfolding preserves_def
proof (intro allI impI)
  fix w :: world
  assume P: "\<forall>ev \<in> set (drop n (trace w)). Q ev"
  from assms obtain evs where t: "trace (snd (m w)) = trace w @ evs" and q: "\<forall>ev \<in> set evs. Q ev"
    unfolding trace_only_def by blast
  have "set (drop n (trace w @ evs)) \<subseteq> set (drop n (trace w)) \<union> set evs"
    by (auto dest: in_set_dropD)
  with P q t show "\<forall>ev \<in> set (drop n (trace (snd (m w)))). Q ev" by auto
qed

lemma addMessageToSession_trace_only:
  "trace_only is_redis_event (addMessageToSession e sid msg)"
  unfolding trace_only_def
  by (auto simp: addMessageToSession_def getSession_def saveSession_def client_get_def
      client_setex_def new_Date_def io_defs split: option.splits)

lemma extendSessionTTL_trace_only:
  "trace_only is_redis_event (extendSessionTTL e sid)"
  unfolding trace_only_def
  by (auto simp: extendSessionTTL_def client_expire_def io_defs split: option.splits)

lemma addMessageToSession_points [simp]:
  "points (snd (addMessageToSession e sid msg w)) = points w"
  by (auto simp: addMessageToSession_def getSession_def saveSession_def client_get_def
      client_setex_def new_Date_def io_defs step_def split: option.splits)

lemma extendSessionTTL_points [simp]:
  "points (snd (extendSessionTTL e sid w)) = points w"
  by (auto simp: extendSessionTTL_def client_expire_def io_defs step_def split: option.splits)

lemma addMessageToSession_holds:
  "preserves (holds_user_message sid msg) (addMessageToSession e sid m)"
  unfolding preserves_def holds_user_message_def
  by (auto simp: addMessageToSession_def getSession_def saveSession_def client_get_def
      client_setex_def new_Date_def io_defs split: option.splits)

lemma extendSessionTTL_holds:
  "preserves (holds_user_message sid msg) (extendSessionTTL e sid')"
  unfolding preserves_def holds_user_message_def
  by (auto simp: extendSessionTTL_def client_expire_def io_defs split: option.splits)

lemma step_holds:
  assumes "\<And>w. snd (m w) = step evs w"
  shows "preserves (holds_user_message sid msg) m"
  using assms by (simp add: preserves_def holds_user_message_def)


lemma processQuery_steps:
  assumes "store_reachable e"
    and "addMessageToSession e sid
           \<lparr>m_id = uuid e (tick w), m_role = user, m_content = msg,
            m_timestamp = now e (Suc (tick w))\<rparr> (step [] (step [] w)) = (Inr (), w3)"
  shows "processQuery e sid msg limit threshold w
         = io_catch
             (processQuery_tail e sid msg limit threshold
                (map_option snd (redis w3 (getSessionKey sid))))
             (\<lambda>error. io_throw
                (InternalServerError (js ''Failed to process chat query'') (Caught error)))
             (step [RedisGet (getSessionKey sid)] w3)"
  by (simp add: processQuery_unfold io_bind_def io_catch_def uuidv4_def new_Date_def assms(2)
      getSession_reachable [OF assms(1)])

lemma processQuery_after_history:
  assumes "store_reachable e" and "sessions_keyed w"
  shows "\<exists>s w4.
      processQuery e sid msg limit threshold w
        = io_catch (processQuery_tail e sid msg limit threshold (Some s))
            (\<lambda>error. io_throw
               (InternalServerError (js ''Failed to process chat query'') (Caught error))) w4
      \<and> messages s
          = (case redis w (getSessionKey sid) of None \<Rightarrow> [] | Some (ttl, old) \<Rightarrow> messages old)
            @ [\<lparr>m_id = uuid e (tick w), m_role = user, m_content = msg,
                m_timestamp = now e (Suc (tick w))\<rparr>]
      \<and> redis w4 (getSessionKey sid) = Some (SESSION_TTL, s)
      \<and> trace w4 = trace w @ [RedisGet (getSessionKey sid),
            RedisSetex (getSessionKey sid) SESSION_TTL s, RedisGet (getSessionKey sid)]
      \<and> points w4 = points w
      \<and> tick w4 = embedding_step w sid"
proof -
  define um where "um = \<lparr>m_id = uuid e (tick w), m_role = user, m_content = msg,
                m_timestamp = now e (Suc (tick w))\<rparr>"
  define w2 where "w2 = step [] (step [] w)"
  define s where "s = (case redis w (getSessionKey sid) of
      None \<Rightarrow> \<lparr>s_id = sid, messages = [um], createdAt = now e (Suc (tick w2)),
                updatedAt = now e (Suc (Suc (tick w2)))\<rparr>
    | Some (ttl, old) \<Rightarrow> old\<lparr>messages := messages old @ [um],
                updatedAt := now e (Suc (tick w2))\<rparr>)"
  define w3 where "w3 = w2\<lparr>redis := (redis w2)(getSessionKey sid \<mapsto> (SESSION_TTL, s)),
        trace := trace w2 @ [RedisGet (getSessionKey sid),
           RedisSetex (getSessionKey sid) SESSION_TTL s],
        tick := tick w2 + (case redis w (getSessionKey sid) of None \<Rightarrow> 4 | Some _ \<Rightarrow> 3)\<rparr>"
  have add: "addMessageToSession e sid um w2 = (Inr (), w3)"
  proof (cases "redis w (getSessionKey sid)")
    case None
    then have "redis w2 (getSessionKey sid) = None" by (simp add: w2_def)
    from addMessageToSession_absent [OF assms(1) this] None show ?thesis
      by (simp add: w3_def s_def)
  next
    case (Some p)
    obtain ttl old where p: "p = (ttl, old)" by (cases p)
    from assms(2) Some p have id: "s_id old = sid" by (auto simp: sessions_keyed_def)
    from Some p have "redis w2 (getSessionKey sid) = Some (ttl, old)" by (simp add: w2_def)
    from addMessageToSession_present [OF assms(1) this id] Some p show ?thesis
      by (simp add: w3_def s_def)
  qed
  have r3: "redis w3 (getSessionKey sid) = Some (SESSION_TTL, s)" by (simp add: w3_def)
  have 1: "processQuery e sid msg limit threshold w
        = io_catch (processQuery_tail e sid msg limit threshold (Some s))
            (\<lambda>error. io_throw
               (InternalServerError (js ''Failed to process chat query'') (Caught error)))
            (step [RedisGet (getSessionKey sid)] w3)"
    using processQuery_steps [OF assms(1) add [unfolded um_def w2_def]] by (simp add: r3)
  have 2: "messages s
          = (case redis w (getSessionKey sid) of None \<Rightarrow> [] | Some (ttl, old) \<Rightarrow> messages old)
            @ [um]"
    by (simp add: s_def split: option.splits)
  have 3: "redis (step [RedisGet (getSessionKey sid)] w3) (getSessionKey sid)
           = Some (SESSION_TTL, s)"
    by (simp add: r3)
  have 4: "trace (step [RedisGet (getSessionKey sid)] w3) = trace w @ [RedisGet (getSessionKey sid),
            RedisSetex (getSessionKey sid) SESSION_TTL s, RedisGet (getSessionKey sid)]"
    by (simp add: w3_def w2_def)
  have 5: "points (step [RedisGet (getSessionKey sid)] w3) = points w"
    by (simp add: w3_def w2_def)
  have 6: "tick (step [RedisGet (getSessionKey sid)] w3) = embedding_step w sid"
    by (simp add: w3_def w2_def embedding_step_def split: option.splits)
  from 1 2 3 4 5 6 show ?thesis unfolding um_def by blast
qed


subsection \<open>The remainder of a query\<close>

lemma preserves_conj:
  assumes "preserves A m" and "preserves B m"
  shows "preserves (\<lambda>w. A w \<and> B w) m"
  using assms by (simp add: preserves_def)

lemma trace_only_prefix:
  assumes "trace_only Q m"
  shows "preserves (\<lambda>w. \<exists>rest. trace w = pre @ rest) m"
  unfolding preserves_def
proof (intro allI impI)
  fix w :: world
  assume "\<exists>rest. trace w = pre @ rest"
  then obtain rest where "trace w = pre @ rest" ..
  moreover from assms obtain evs where "trace (snd (m w)) = trace w @ evs"
    unfolding trace_only_def by blast
  ultimately have "trace (snd (m w)) = pre @ (rest @ evs)" by simp
  then show "\<exists>rest. trace (snd (m w)) = pre @ rest" ..
qed

lemma processQuery_tail_events:
  assumes redis: "\<And>ev. is_redis_event ev \<Longrightarrow> Q ev"
    and jina: "\<And>ts. Q (JinaPost ts)"
    and search: "\<And>v. Q (QdrantSearch v limit threshold)"
    and gemini: "\<And>c. Q (GeminiGenerate
           (systemPrompt (buildContext c)
              (formatChatHistory
                 (slice_last 10 (case session of None \<Rightarrow> [] | Some s \<Rightarrow> messages s))) msg))"
  shows "preserves (\<lambda>w. \<forall>ev \<in> set (drop n (trace w)). Q ev)
           (processQuery_tail e sid msg limit threshold session)"
proof (rule processQuery_tail_preserves)
  show "preserves (\<lambda>w. \<forall>ev\<in>set (drop n (trace w)). Q ev) (generateSingleEmbedding e msg)"
    by (rule trace_only_preserves, rule trace_only_step, rule generateSingleEmbedding_world)
       (simp add: jina)
  show "preserves (\<lambda>w. \<forall>ev\<in>set (drop n (trace w)). Q ev) (searchSimilar e v limit threshold)" for v
    by (rule trace_only_preserves, rule trace_only_step, rule searchSimilar_world)
       (simp add: search)
  show "preserves (\<lambda>w. \<forall>ev\<in>set (drop n (trace w)). Q ev)
          (generateResponse e msg c
             (slice_last 10 (case session of None \<Rightarrow> [] | Some s \<Rightarrow> messages s)))" for c
    by (rule trace_only_preserves, rule trace_only_step, rule generateResponse_world)
       (simp add: gemini)
  show "preserves (\<lambda>w. \<forall>ev\<in>set (drop n (trace w)). Q ev) (uuidv4 e)"
    by (rule trace_only_preserves, rule trace_only_step, rule uuidv4_world) simp
  show "preserves (\<lambda>w. \<forall>ev\<in>set (drop n (trace w)). Q ev) (new_Date e)"
    by (rule trace_only_preserves, rule trace_only_step, rule new_Date_world) simp
  show "preserves (\<lambda>w. \<forall>ev\<in>set (drop n (trace w)). Q ev) (addMessageToSession e sid m)" for m
    by (rule trace_only_preserves, rule trace_only_weaken,
        rule addMessageToSession_trace_only, rule redis)
  show "preserves (\<lambda>w. \<forall>ev\<in>set (drop n (trace w)). Q ev) (extendSessionTTL e sid)"
    by (rule trace_only_preserves, rule trace_only_weaken,
        rule extendSessionTTL_trace_only, rule redis)
qed

lemma processQuery_tail_prefix:
  "preserves (\<lambda>w. \<exists>rest. trace w = pre @ rest)
     (processQuery_tail e sid msg limit threshold session)"
proof (rule processQuery_tail_preserves)
  show "preserves (\<lambda>w. \<exists>rest. trace w = pre @ rest) (generateSingleEmbedding e msg)"
    by (rule trace_only_prefix [where Q = "\<lambda>_. True"], rule trace_only_step,
        rule generateSingleEmbedding_world) simp
  show "preserves (\<lambda>w. \<exists>rest. trace w = pre @ rest) (searchSimilar e v limit threshold)" for v
    by (rule trace_only_prefix [where Q = "\<lambda>_. True"], rule trace_only_step,
        rule searchSimilar_world) simp
  show "preserves (\<lambda>w. \<exists>rest. trace w = pre @ rest)
          (generateResponse e msg c
             (slice_last 10 (case session of None \<Rightarrow> [] | Some s \<Rightarrow> messages s)))" for c
    by (rule trace_only_prefix [where Q = "\<lambda>_. True"], rule trace_only_step,
        rule generateResponse_world) simp
  show "preserves (\<lambda>w. \<exists>rest. trace w = pre @ rest) (uuidv4 e)"
    by (rule trace_only_prefix [where Q = "\<lambda>_. True"], rule trace_only_step,
        rule uuidv4_world) simp
  show "preserves (\<lambda>w. \<exists>rest. trace w = pre @ rest) (new_Date e)"
    by (rule trace_only_prefix [where Q = "\<lambda>_. True"], rule trace_only_step,
        rule new_Date_world) simp
  show "preserves (\<lambda>w. \<exists>rest. trace w = pre @ rest) (addMessageToSession e sid m)" for m
    by (rule trace_only_prefix, rule addMessageToSession_trace_only)
  show "preserves (\<lambda>w. \<exists>rest. trace w = pre @ rest) (extendSessionTTL e sid)"
    by (rule trace_only_prefix, rule extendSessionTTL_trace_only)
qed

lemma processQuery_tail_holds:
  "preserves (holds_user_message sid um) (processQuery_tail e sid msg limit threshold session)"
  by (rule processQuery_tail_preserves)
     (rule step_holds [OF generateSingleEmbedding_world] step_holds [OF searchSimilar_world]
        step_holds [OF generateResponse_world] step_holds [OF uuidv4_world]
        step_holds [OF new_Date_world] addMessageToSession_holds extendSessionTTL_holds)+

lemma catch_throw_class:
  assumes "fst (io_catch m (\<lambda>error. io_throw (InternalServerError t (Caught error))) w) = Inl err"
  shows "\<exists>cause. err = InternalServerError t (Caught cause)"
  using assms by (auto simp: io_catch_def io_throw_def split: prod.splits sum.splits)

subsection \<open>Embedding, search and generation\<close>

lemma trim_whitespace:
  assumes "\<forall>c \<in> set text. isWhiteSpace c"
  shows "trim text = []"
proof -
  from assms have d: "dropWhile isWhiteSpace text = []" by simp
  show ?thesis unfolding trim_def d by simp
qed

lemma generateResponse_empty:
  assumes "gemini e (tick w) (systemPrompt (buildContext c) (formatChatHistory h) q) = Inr text"
    and "\<forall>c \<in> set text. isWhiteSpace c"
  shows "generateResponse e q c h w
         = (Inl (ExternalServiceError (js ''Gemini API'') (js ''Empty response from Gemini API'')
                   (Caught (JsError (js ''Empty response from Gemini API'')))),
            step [GeminiGenerate (systemPrompt (buildContext c) (formatChatHistory h) q)] w)"
  using assms
  by (simp add: generateResponse_def generateContent_def io_defs Let_def trim_whitespace)

lemma generateSingleEmbedding_ok:
  assumes "jina e (tick w) [take 8192 t] = Inr r" and "r \<noteq> NoEmbeddings"
  shows "\<exists>v. generateSingleEmbedding e t w = (Inr v, step [JinaPost [take 8192 t]] w)"
  using assms
  by (cases r)
     (simp_all add: generateSingleEmbedding_def generateEmbeddings_def axios_post_def io_defs)

lemma searchSimilar_ok:
  assumes "qdrant_search e (tick w) v l t = Inr ps"
  shows "\<exists>rs. searchSimilar e v l t w = (Inr rs, step [QdrantSearch v l t] w)"
  using assms by (simp add: searchSimilar_def client_search_def io_defs)

lemma slice_last_idem: "slice_last n (slice_last n xs) = slice_last n xs"
  by (simp add: slice_last_def)

lemma toUpperCase_role: "toUpperCase (role_name r) = role_tag r"
  by (cases r) (simp_all add: toUpperCase_def role_name_def role_tag_def js_def)

lemma formatChatHistory_lines:
  assumes "h \<noteq> []"
  shows "formatChatHistory (slice_last 10 h) = join nl (history_lines h)"
proof -
  from assms have "0 < length h" by simp
  then have "length h - 10 < length h" by arith
  then have "slice_last 10 h \<noteq> []" by (simp add: slice_last_def)
  then show ?thesis
    by (simp add: formatChatHistory_def slice_last_idem toUpperCase_role history_lines_def)
       (simp add: slice_last_def)
qed

subsection \<open>Failing steps\<close>

lemma io_bind_Inl: "fst (m w) = Inl err \<Longrightarrow> fst (io_bind m f w) = Inl err"
  by (cases "m w") (simp add: io_bind_def)

lemma io_bind_Inr: "m w = (Inr x, w') \<Longrightarrow> io_bind m f w = f x w'"
  by (simp add: io_bind_def)

lemma io_catch_Inl:
  "fst (m w) = Inl err \<Longrightarrow> fst (io_catch m (\<lambda>error. io_throw (k error)) w) = Inl (k err)"
  by (cases "m w") (simp add: io_catch_def io_throw_def)

lemma generateSingleEmbedding_fails:
  assumes "\<forall>xs. jina e (tick w) [take 8192 t] \<noteq> Inr (DataItems xs)
                \<and> jina e (tick w) [take 8192 t] \<noteq> Inr (Embeddings xs)"
  shows "\<exists>cause. fst (generateSingleEmbedding e t w) = Inl cause
                \<and> error_class_of cause = Some ExternalServiceErrorClass"
proof (cases "jina e (tick w) [take 8192 t]")
  case (Inl x)
  then show ?thesis
    by (cases x)
       (simp_all add: generateSingleEmbedding_def generateEmbeddings_def axios_post_def io_defs
          ExternalServiceError_def)
next
  case (Inr r)
  with assms have "r = NoEmbeddings" by (cases r) auto
  with Inr show ?thesis
    by (simp add: generateSingleEmbedding_def generateEmbeddings_def axios_post_def io_defs
          ExternalServiceError_def)
qed

lemma generateSingleEmbedding_first:
  assumes "jina e (tick w) [take 8192 t] = Inr r" and "r \<noteq> NoEmbeddings"
  shows "generateSingleEmbedding e t w = (Inr (first_embedding r), step [JinaPost [take 8192 t]] w)"
  using assms
  by (cases r)
     (simp_all add: generateSingleEmbedding_def generateEmbeddings_def axios_post_def io_defs
        first_embedding_def)

lemma searchSimilar_fails:
  assumes "qdrant_search e (tick w) v l t = Inl x"
  shows "searchSimilar e v l t w
         = (Inl (InternalServerError (js ''Failed to search vector database'') (Caught x)),
            step [QdrantSearch v l t] w)"
  using assms by (simp add: searchSimilar_def client_search_def io_defs)

lemma generateResponse_fails:
  assumes "case gemini e (tick w) (systemPrompt (buildContext c) (formatChatHistory h) q) of
             Inl x \<Rightarrow> True | Inr reply \<Rightarrow> \<forall>c \<in> set reply. isWhiteSpace c"
  shows "\<exists>cause. fst (generateResponse e q c h w) = Inl cause
                \<and> error_class_of cause = Some ExternalServiceErrorClass"
proof (cases "gemini e (tick w) (systemPrompt (buildContext c) (formatChatHistory h) q)")
  case (Inl x)
  then show ?thesis
    by (simp add: generateResponse_def generateContent_def io_defs Let_def
        ExternalServiceError_def)
next
  case (Inr reply)
  with assms have "\<forall>c \<in> set reply. isWhiteSpace c" by simp
  from generateResponse_empty [OF Inr this] show ?thesis
    by (simp add: ExternalServiceError_def)
qed

lemma systemPrompt_history:
  "\<exists>before after.
     systemPrompt context conversationHistory userQuery
       = before @ js ''CONVERSATION HISTORY:'' @ nl @ conversationHistory
         @ nl @ nl @ js ''USER QUESTION: '' @ userQuery @ after"
  unfolding systemPrompt_def
  by (rule exI [of _
       "js ''You are an intelligent assistant that answers questions based on provided news articles context. '' @ nl
        @ nl
        @ js ''INSTRUCTIONS:'' @ nl
        @ js ''1. Use ONLY the information provided in the context to answer questions'' @ nl
        @ js ''2. If the context doesn't contain enough information, clearly state what's missing'' @ nl
        @ js ''3. Provide accurate, concise, and helpful responses'' @ nl
        @ js ''4. Cite sources when possible by mentioning the article titles or sources'' @ nl
        @ js ''5. If asked about current events, remind users that information is based on the provided articles'' @ nl
        @ js ''6. Be conversational but professional'' @ nl
        @ js ''7. If no relevant information is found, politely explain this limitation'' @ nl
        @ nl
        @ js ''CONTEXT:'' @ nl
        @ context @ nl
        @ nl"],
      rule exI [of _
       "nl @ nl @ js ''Please provide a helpful response based on the context provided.''"])
     simp

subsection \<open>Batch indexing\<close>

lemma generateEmbeddings_frame:
  "points (snd (generateEmbeddings e ts w)) = points w
   \<and> filter is_upsert (trace (snd (generateEmbeddings e ts w))) = filter is_upsert (trace w)"
  by (auto simp: generateEmbeddings_def axios_post_def io_defs
      split: sum.splits jina_response.splits thrown.splits)

lemma batchEmbeddings_loop_frame:
  "points (snd (batchEmbeddings_loop e texts i results w)) = points w
   \<and> filter is_upsert (trace (snd (batchEmbeddings_loop e texts i results w)))
       = filter is_upsert (trace w)"
proof (induction e texts i results w rule: batchEmbeddings_loop.induct)
  case (1 e texts i results w)
  show ?case
  proof (cases "i < length texts")
    case False
    then show ?thesis by (simp add: batchEmbeddings_loop.simps)
  next
    case True
    obtain r w' where g: "generateEmbeddings e (take 10 (drop i texts)) w = (r, w')"
      by (cases "generateEmbeddings e (take 10 (drop i texts)) w")
    from generateEmbeddings_frame [of e "take 10 (drop i texts)" w] g
    have fr: "points w' = points w" "filter is_upsert (trace w') = filter is_upsert (trace w)"
      by simp_all
    show ?thesis
    proof (cases r)
      case (Inl err)
      with True g fr show ?thesis by (simp add: batchEmbeddings_loop.simps)
    next
      case (Inr batch)
      from "1.IH" [OF True g [symmetric] Inr] fr True g Inr
      show ?thesis by (simp add: batchEmbeddings_loop.simps [of e texts i results w])
    qed
  qed
qed

lemma batchEmbeddings_frame:
  "points (snd (batchEmbeddings e texts w)) = points w
   \<and> filter is_upsert (trace (snd (batchEmbeddings e texts w))) = filter is_upsert (trace w)"
  by (simp add: batchEmbeddings_def batchEmbeddings_loop_frame io_return_def)

lemma upsertDocuments_mismatch:
  assumes "length documents \<noteq> length embeddings"
  shows "upsertDocuments e documents embeddings w
         = (Inl (InternalServerError (js ''Failed to store documents in vector database'')
                   (Caught (JsError
                      (js ''Documents and embeddings arrays must have the same length'')))),
            w)"
  using assms by (simp add: upsertDocuments_def io_defs)

lemma short_batch:
  "batchEmbeddings short_env (map content two_chunks) empty_world
   = (Inr [[1, 0]], step [JinaPost [js ''AI is...'', js ''ML is...'']] empty_world)"
  by (simp add: batchEmbeddings_def batchEmbeddings_loop.simps generateEmbeddings_def
      axios_post_def io_defs short_env_def quiet_env_def two_chunks_def empty_world_def js_def)

subsection \<open>The searches issued\<close>

lemma getSession_trace_only: "trace_only is_redis_event (getSession e sid)"
  by (rule trace_only_step, rule getSession_world) simp

lemma processQuery_events:
  assumes redis: "\<And>ev. is_redis_event ev \<Longrightarrow> Q ev"
    and jina: "\<And>ts. Q (JinaPost ts)"
    and search: "\<And>v. Q (QdrantSearch v limit threshold)"
    and gemini: "\<And>p. Q (GeminiGenerate p)"
  shows "preserves (\<lambda>w. \<forall>ev \<in> set (drop n (trace w)). Q ev)
           (processQuery e sid msg limit threshold)"
proof -
  let ?P = "\<lambda>w. \<forall>ev \<in> set (drop n (trace w)). Q ev"
  have 1: "preserves ?P (uuidv4 e)"
    by (rule trace_only_preserves, rule trace_only_step, rule uuidv4_world) simp
  have 2: "preserves ?P (new_Date e)"
    by (rule trace_only_preserves, rule trace_only_step, rule new_Date_world) simp
  have 3: "preserves ?P (addMessageToSession e sid m)" for m
    by (rule trace_only_preserves, rule trace_only_weaken,
        rule addMessageToSession_trace_only, rule redis)
  have 4: "preserves ?P (getSession e sid)"
    by (rule trace_only_preserves, rule trace_only_weaken,
        rule getSession_trace_only, rule redis)
  have 5: "preserves ?P (processQuery_tail e sid msg limit threshold session)" for session
    by (rule processQuery_tail_events) (simp_all add: redis jina search gemini)
  show ?thesis
    unfolding processQuery_unfold
    by (intro preserves_catch preserves_bind preserves_throw) (rule 1 2 3 4 5)+
qed

lemma searchSimilarDocuments_events:
  assumes jina: "\<And>ts. Q (JinaPost ts)"
    and search: "\<And>v. Q (QdrantSearch v limit threshold)"
  shows "preserves (\<lambda>w. \<forall>ev \<in> set (drop n (trace w)). Q ev)
           (searchSimilarDocuments e query limit threshold)"
proof -
  let ?P = "\<lambda>w. \<forall>ev \<in> set (drop n (trace w)). Q ev"
  have 1: "preserves ?P (generateSingleEmbedding e query)"
    by (rule trace_only_preserves, rule trace_only_step, rule generateSingleEmbedding_world)
       (simp add: jina)
  have 2: "preserves ?P (searchSimilar e v limit threshold)" for v
    by (rule trace_only_preserves, rule trace_only_step, rule searchSimilar_world)
       (simp add: search)
  show ?thesis
    unfolding searchSimilarDocuments_def
    by (intro preserves_catch preserves_bind preserves_throw) (rule 1 2)+
qed

lemma new_events:
  assumes "preserves (\<lambda>w'. \<forall>ev \<in> set (drop (length (trace w)) (trace w')). Q ev) m"
  shows "\<forall>ev \<in> set (drop (length (trace w)) (trace (snd (m w)))). Q ev"
  using preservesD [OF assms, of w] by simp

lemma processQuery_search_events:
  "\<forall>ev \<in> set (drop (length (trace w))
                  (trace (snd (processQuery e sid msg limit threshold w)))).
      \<forall>v l t. ev = QdrantSearch v l t \<longrightarrow> l = limit \<and> t = threshold"
proof (rule new_events, rule processQuery_events)
  show "\<forall>v l t. ev = QdrantSearch v l t \<longrightarrow> l = limit \<and> t = threshold"
    if "is_redis_event ev" for ev using that by (cases ev) simp_all
qed simp_all

lemma searchSimilarDocuments_search_events:
  "\<forall>ev \<in> set (drop (length (trace w))
                  (trace (snd (searchSimilarDocuments e query limit threshold w)))).
      \<forall>v l t. ev = QdrantSearch v l t \<longrightarrow> l = limit \<and> t = threshold"
  by (rule new_events, rule searchSimilarDocuments_events) simp_all

subsection \<open>Independence of the outcome of the TTL refresh\<close>

lemma same_result_bind:
  assumes "\<And>x. same_result (f x) (g x)"
  shows "same_result (io_bind m f) (io_bind m g)"
  using assms by (auto simp: same_result_def io_bind_def split: prod.splits sum.splits)

lemma same_result_catch:
  assumes "same_result m m'"
  shows "same_result (io_catch m (\<lambda>error. io_throw (k error)))
           (io_catch m' (\<lambda>error. io_throw (k error)))"
proof -
  have "fst (io_catch n (\<lambda>error. io_throw (k error)) w)
        = (case fst (n w) of Inl err \<Rightarrow> Inl (k err) | Inr x \<Rightarrow> Inr x)" for n :: "'a io" and w
    by (simp add: io_catch_def io_throw_def split: prod.splits sum.splits)
  with assms show ?thesis by (simp add: same_result_def)
qed

lemma extendSessionTTL_result: "fst (extendSessionTTL e sid w) = Inr ()"
  by (simp add: extendSessionTTL_def client_expire_def io_defs split: option.splits)

lemma expire_fault_clients:
  "client_get (e\<lparr>redis_expire_fault := f\<rparr>) = client_get e"
  "client_setex (e\<lparr>redis_expire_fault := f\<rparr>) = client_setex e"
  "new_Date (e\<lparr>redis_expire_fault := f\<rparr>) = new_Date e"
  "uuidv4 (e\<lparr>redis_expire_fault := f\<rparr>) = uuidv4 e"
  "axios_post (e\<lparr>redis_expire_fault := f\<rparr>) = axios_post e"
  "client_search (e\<lparr>redis_expire_fault := f\<rparr>) = client_search e"
  "generateContent (e\<lparr>redis_expire_fault := f\<rparr>) = generateContent e"
  by (simp_all add: fun_eq_iff client_get_def client_setex_def new_Date_def uuidv4_def
      axios_post_def client_search_def generateContent_def)

lemma expire_fault_operations:
  "getSession (e\<lparr>redis_expire_fault := f\<rparr>) = getSession e"
  "addMessageToSession (e\<lparr>redis_expire_fault := f\<rparr>) = addMessageToSession e"
  "generateSingleEmbedding (e\<lparr>redis_expire_fault := f\<rparr>) = generateSingleEmbedding e"
  "searchSimilar (e\<lparr>redis_expire_fault := f\<rparr>) = searchSimilar e"
  "generateResponse (e\<lparr>redis_expire_fault := f\<rparr>) = generateResponse e"
  unfolding fun_eq_iff getSession_def addMessageToSession_def saveSession_def
    generateSingleEmbedding_def generateEmbeddings_def searchSimilar_def generateResponse_def
    expire_fault_clients
  by (rule allI refl)+

subsection \<open>Evaluation on concrete inputs\<close>

lemmas eval_defs =
  processQuery_def addMessageToSession_def getSession_def saveSession_def extendSessionTTL_def
  client_get_def client_setex_def client_expire_def new_Date_def uuidv4_def
  generateSingleEmbedding_def generateEmbeddings_def axios_post_def
  searchSimilar_def client_search_def generateResponse_def generateContent_def
  io_defs

lemma silent_env_reachable: "store_reachable silent_env"
  by (simp add: store_reachable_def silent_env_def quiet_env_def)

lemma empty_world_keyed: "sessions_keyed empty_world"
  by (simp add: sessions_keyed_def empty_world_def)

lemma one_session_world_keyed: "sessions_keyed one_session_world"
  by (simp add: sessions_keyed_def one_session_world_def)

section \<open>The session store\<close>

text \<open>
  C3: on a reachable store whose sessions the repository wrote, and with a clock that
  is never set back, \<open>addMessageToSession\<close> succeeds and a following \<open>getSession\<close>
  returns a present session: it is the value written back under the session's key with
  the time-to-live at 24 hours (86400 seconds), its messages end with the appended
  message, and its \<open>updatedAt\<close> is not below the previous one. An absent session is
  created with exactly that one message.
\<close>

theorem addMessageToSession_then_getSession:
  assumes "store_reachable e" and "clock_monotone e"
    and "sessions_keyed w" and "sessions_stamped e w"
  shows "fst (addMessageToSession e sid msg w) = Inr () \<and>
     (\<exists>s. fst (getSession e sid (snd (addMessageToSession e sid msg w))) = Inr (Some s)
         \<and> redis (snd (addMessageToSession e sid msg w)) (getSessionKey sid)
             = Some (SESSION_TTL, s)
         \<and> SESSION_TTL = 86400
         \<and> messages s \<noteq> [] \<and> last (messages s) = msg
         \<and> (case redis w (getSessionKey sid) of
              None \<Rightarrow> s_id s = sid \<and> messages s = [msg]
            | Some (ttl, old) \<Rightarrow>
                s_id s = sid \<and> messages s = messages old @ [msg]
                \<and> updatedAt old \<le> updatedAt s))"
proof (cases "redis w (getSessionKey sid)")
  case None
  show ?thesis
    using None assms(1)
    by (simp add: addMessageToSession_absent getSession_reachable SESSION_TTL_def)
next
  case (Some p)
  obtain ttl old where p: "p = (ttl, old)" by (cases p)
  from assms(3) Some p have id: "s_id old = sid"
    by (auto simp: sessions_keyed_def)
  from assms(4) Some p have st: "updatedAt old \<le> now e (tick w)"
    by (auto simp: sessions_stamped_def)
  from assms(2) have "now e (tick w) \<le> now e (Suc (tick w))"
    by (simp add: clock_monotone_def)
  with st have "updatedAt old \<le> now e (Suc (tick w))" by simp
  then show ?thesis
    using Some p id assms(1)
    by (simp add: addMessageToSession_present getSession_reachable SESSION_TTL_def)
qed

theorem addMessageToSession_then_getSession_witness:
  "store_reachable quiet_env \<and> clock_monotone quiet_env
   \<and> sessions_keyed one_session_world \<and> sessions_stamped quiet_env one_session_world
   \<and> fst (addMessageToSession quiet_env (js ''s1'') again one_session_world) = Inr ()
   \<and> (\<exists>s. fst (getSession quiet_env (js ''s1'')
               (snd (addMessageToSession quiet_env (js ''s1'') again one_session_world)))
             = Inr (Some s)
          \<and> messages s = [hello, again] \<and> 900 \<le> updatedAt s)"
proof -
  have keyed: "sessions_keyed one_session_world"
    by (simp add: sessions_keyed_def one_session_world_def)
  have stamped: "sessions_stamped quiet_env one_session_world"
    by (simp add: sessions_stamped_def one_session_world_def quiet_env_def)
  have old: "redis one_session_world (getSessionKey (js ''s1''))
             = Some (100, \<lparr>s_id = js ''s1'', messages = [hello], createdAt = 900,
                           updatedAt = 900\<rparr>)"
    by (simp add: one_session_world_def)
  show ?thesis
    using addMessageToSession_then_getSession
      [OF quiet_env_reachable quiet_env_monotone keyed stamped, of "js ''s1''" again]
    by (auto simp: quiet_env_reachable quiet_env_monotone keyed stamped old)
qed

text \<open>
  C9: when the Redis server answers, \<open>deleteSession\<close> returns true exactly when the
  session's key was present at the call; the key is absent afterwards, and a second
  \<open>deleteSession\<close> of the same session returns false.
\<close>

theorem deleteSession_true_iff_existed:
  assumes "redis_del_fault e (tick w) = None" and "redis_del_fault e (Suc (tick w)) = None"
  shows "fst (deleteSession e sessionId w) = Inr (redis w (getSessionKey sessionId) \<noteq> None)
       \<and> redis (snd (deleteSession e sessionId w)) (getSessionKey sessionId) = None
       \<and> fst (deleteSession e sessionId (snd (deleteSession e sessionId w))) = Inr False"
  using assms by (auto simp: deleteSession_def client_del_def io_defs)

theorem deleteSession_true_iff_existed_witness:
  "redis_del_fault quiet_env (tick one_session_world) = None
   \<and> redis_del_fault quiet_env (Suc (tick one_session_world)) = None
   \<and> fst (deleteSession quiet_env (js ''s1'') one_session_world) = Inr True
   \<and> fst (deleteSession quiet_env (js ''s1'')
          (snd (deleteSession quiet_env (js ''s1'') one_session_world))) = Inr False"
  using deleteSession_true_iff_existed [of quiet_env one_session_world "js ''s1''"]
  by (simp add: quiet_env_def one_session_world_def)

section \<open>Embedding\<close>

text \<open>
  C10: \<open>generateEmbeddings\<close> returns the empty sequence for the empty input and leaves
  the world as it was, so the provider is not contacted. For a non-empty input it
  issues one request, whose texts are the inputs cut to their first 8192 code units;
  no input is rejected for its length, the outcome being that of the truncated input.
\<close>

theorem generateEmbeddings_truncates:
  "generateEmbeddings e [] w = (Inr [], w) \<and>
   (texts \<noteq> [] \<longrightarrow>
      trace (snd (generateEmbeddings e texts w)) = trace w @ [JinaPost (map (take 8192) texts)]
      \<and> (\<forall>t \<in> set (map (take 8192) texts). length t \<le> 8192)
      \<and> fst (generateEmbeddings e texts w)
          = fst (generateEmbeddings e (map (take 8192) texts) w))"
proof (intro conjI impI)
  show "generateEmbeddings e [] w = (Inr [], w)"
    by (simp add: generateEmbeddings_def io_defs)
next
  assume "texts \<noteq> []"
  then show "trace (snd (generateEmbeddings e texts w))
             = trace w @ [JinaPost (map (take 8192) texts)]"
    by (rule trace_generateEmbeddings)
next
  show "\<forall>t \<in> set (map (take 8192) texts). length t \<le> 8192" by auto
next
  assume ne: "texts \<noteq> []"
  then have ne': "map (take 8192) texts \<noteq> []" by simp
  show "fst (generateEmbeddings e texts w) = fst (generateEmbeddings e (map (take 8192) texts) w)"
    by (simp add: generateEmbeddings_nonempty [OF ne] generateEmbeddings_nonempty [OF ne'])
qed

theorem generateEmbeddings_truncates_witness:
  "[replicate 8200 (97 :: 16 word)] \<noteq> []
   \<and> trace (snd (generateEmbeddings quiet_env [replicate 8200 97] empty_world))
       = [JinaPost [replicate 8192 97]]
   \<and> fst (generateEmbeddings quiet_env [replicate 8200 97] empty_world) = Inr [[1, 0]]"
  using generateEmbeddings_truncates [of quiet_env empty_world "[replicate 8200 97]"]
  by (simp add: generateEmbeddings_def axios_post_def io_defs quiet_env_def empty_world_def)

section \<open>Context assembly\<close>

text \<open>
  C5: \<open>buildContext\<close> is a function of the chunk sequence alone. It computes the
  context assembly of the specification: the sentinel text for no chunks, and for
  \<open>n\<close> chunks the articles 1 to \<open>n\<close> in the order of the chunks. Its result is
  never the empty string.
\<close>

theorem buildContext_assembleContext:
  "buildContext chunks = assembleContext chunks
   \<and> buildContext [] = js ''No relevant articles found for this query.''
   \<and> buildContext chunks \<noteq> []"
proof (cases chunks)
  case Nil
  then show ?thesis by (simp add: buildContext_def assembleContext_def js_def)
next
  case (Cons c cs)
  then have ne: "chunks \<noteq> []" by simp
  have 1: "buildContext chunks = assembleContext chunks"
    using Cons buildContext_articles [OF ne] by (simp add: assembleContext_def)
  have "article 1 c \<noteq> []" by (simp add: article_def nl_def)
  then have "buildContext chunks \<noteq> []"
    using Cons buildContext_articles [OF ne]
    by (simp add: upt_conv_Cons join_nonempty del: upt_Suc)
  with 1 show ?thesis by (simp add: buildContext_def)
qed


section \<open>Query processing\<close>

text \<open>
  C2: on a reachable store whose sessions are keyed by their ids, the first actions of
  \<open>processQuery\<close> on the outside world are the read of the session and its write-back
  with the user's message; embedding, retrieval and generation come after. Whatever
  the later steps do, the message is in the session at the end of the call, so that
  \<open>getChatHistory\<close> returns a sequence that contains it; nothing is rolled back.
  A call that fails rejects with the error of \<open>processQuery\<close>, and a later step that
  fails makes the call fail: when the embedding provider throws or answers without
  embeddings, when the search of the vector store throws, and when the generation
  provider throws or answers with blanks only, the call rejects with the error of that
  step as the details.
\<close>

theorem processQuery_records_user_message:
  assumes "store_reachable e" and "sessions_keyed w"
  shows "(\<exists>s rest.
            trace (snd (processQuery e sid msg limit threshold w))
              = trace w @ [RedisGet (getSessionKey sid),
                           RedisSetex (getSessionKey sid) SESSION_TTL s] @ rest
            \<and> \<lparr>m_id = uuid e (tick w), m_role = user, m_content = msg,
                m_timestamp = now e (Suc (tick w))\<rparr> \<in> set (messages s))
       \<and> (\<exists>history.
            fst (getChatHistory e sid (snd (processQuery e sid msg limit threshold w)))
              = Inr history
            \<and> \<lparr>m_id = uuid e (tick w), m_role = user, m_content = msg,
                m_timestamp = now e (Suc (tick w))\<rparr> \<in> set history)
       \<and> (\<forall>err. fst (processQuery e sid msg limit threshold w) = Inl err
            \<longrightarrow> (\<exists>cause. err = InternalServerError (js ''Failed to process chat query'')
                                  (Caught cause)))
       \<and> ((\<forall>xs. jina e (embedding_step w sid) [take 8192 msg] \<noteq> Inr (DataItems xs)
                \<and> jina e (embedding_step w sid) [take 8192 msg] \<noteq> Inr (Embeddings xs))
            \<longrightarrow> (\<exists>cause. fst (processQuery e sid msg limit threshold w)
                             = Inl (InternalServerError (js ''Failed to process chat query'')
                                      (Caught cause))
                         \<and> error_class_of cause = Some ExternalServiceErrorClass))
       \<and> (\<forall>r x. jina e (embedding_step w sid) [take 8192 msg] = Inr r \<and> r \<noteq> NoEmbeddings
                \<and> qdrant_search e (Suc (embedding_step w sid)) (first_embedding r) limit
                      threshold = Inl x
            \<longrightarrow> fst (processQuery e sid msg limit threshold w)
                  = Inl (InternalServerError (js ''Failed to process chat query'')
                           (Caught (InternalServerError (js ''Failed to search vector database'')
                                      (Caught x)))))
       \<and> (\<forall>r ps. jina e (embedding_step w sid) [take 8192 msg] = Inr r \<and> r \<noteq> NoEmbeddings
                \<and> qdrant_search e (Suc (embedding_step w sid)) (first_embedding r) limit
                      threshold = Inr ps
                \<and> (\<forall>chunks.
                      case gemini e (Suc (Suc (embedding_step w sid)))
                             (systemPrompt (buildContext chunks)
                                (formatChatHistory
                                   (slice_last 10
                                      ((case redis w (getSessionKey sid) of
                                          None \<Rightarrow> [] | Some (ttl, old) \<Rightarrow> messages old)
                                       @ [\<lparr>m_id = uuid e (tick w), m_role = user,
                                           m_content = msg,
                                           m_timestamp = now e (Suc (tick w))\<rparr>])))
                                msg)
                      of Inl x \<Rightarrow> True | Inr reply \<Rightarrow> \<forall>c \<in> set reply. isWhiteSpace c)
            \<longrightarrow> (\<exists>cause. fst (processQuery e sid msg limit threshold w)
                             = Inl (InternalServerError (js ''Failed to process chat query'')
                                      (Caught cause))
                         \<and> error_class_of cause = Some ExternalServiceErrorClass))"
proof -
  define um where "um = \<lparr>m_id = uuid e (tick w), m_role = user, m_content = msg,
                m_timestamp = now e (Suc (tick w))\<rparr>"
  define h :: "thrown \<Rightarrow> ChatResponse io" where "h = (\<lambda>error. io_throw
               (InternalServerError (js ''Failed to process chat query'') (Caught error)))"
  from processQuery_after_history [OF assms, of sid msg limit threshold]
  obtain s w4 where
    eq: "processQuery e sid msg limit threshold w
        = io_catch (processQuery_tail e sid msg limit threshold (Some s)) h w4"
    and ms: "messages s
          = (case redis w (getSessionKey sid) of None \<Rightarrow> [] | Some (ttl, old) \<Rightarrow> messages old)
            @ [um]"
    and r4: "redis w4 (getSessionKey sid) = Some (SESSION_TTL, s)"
    and t4: "trace w4 = trace w @ [RedisGet (getSessionKey sid),
            RedisSetex (getSessionKey sid) SESSION_TTL s, RedisGet (getSessionKey sid)]"
    and k4: "tick w4 = embedding_step w sid"
    unfolding um_def h_def by blast
  let ?w' = "snd (processQuery e sid msg limit threshold w)"
  let ?pre = "trace w @ [RedisGet (getSessionKey sid),
                           RedisSetex (getSessionKey sid) SESSION_TTL s]"
  from ms have in_s: "um \<in> set (messages s)" by simp
  have pres: "preserves (\<lambda>w. holds_user_message sid um w \<and> (\<exists>rest. trace w = ?pre @ rest))
          (io_catch (processQuery_tail e sid msg limit threshold (Some s)) h)"
    unfolding h_def
    by (intro preserves_conj preserves_catch preserves_throw processQuery_tail_holds
        processQuery_tail_prefix)
  have "holds_user_message sid um w4 \<and> (\<exists>rest. trace w4 = ?pre @ rest)"
    using r4 t4 in_s by (simp add: holds_user_message_def)
  with pres have final: "holds_user_message sid um ?w' \<and> (\<exists>rest. trace ?w' = ?pre @ rest)"
    unfolding eq by (rule preservesD)
  then obtain ttl s' where st: "redis ?w' (getSessionKey sid) = Some (ttl, s')"
    and in_s': "um \<in> set (messages s')"
    by (auto simp: holds_user_message_def)
  have hist: "fst (getChatHistory e sid ?w') = Inr (messages s')"
    using st by (simp add: getChatHistory_def getSession_reachable [OF assms(1)] io_defs)
  have 1: "\<exists>s rest. trace ?w' = trace w @ [RedisGet (getSessionKey sid),
                           RedisSetex (getSessionKey sid) SESSION_TTL s] @ rest
            \<and> um \<in> set (messages s)"
    using final in_s by auto
  have 2: "\<exists>history. fst (getChatHistory e sid ?w') = Inr history \<and> um \<in> set history"
    using hist in_s' by blast
  have 3: "\<forall>err. fst (processQuery e sid msg limit threshold w) = Inl err
            \<longrightarrow> (\<exists>cause. err = InternalServerError (js ''Failed to process chat query'')
                                  (Caught cause))"
    unfolding processQuery_def by (blast dest: catch_throw_class)
  let ?t = "embedding_step w sid"
  let ?reject = "\<lambda>cause. fst (processQuery e sid msg limit threshold w)
                   = Inl (InternalServerError (js ''Failed to process chat query'')
                            (Caught cause))"
  have reject: "?reject cause"
    if "fst (processQuery_tail e sid msg limit threshold (Some s) w4) = Inl cause" for cause
    unfolding eq h_def using that by (rule io_catch_Inl)
  have 4: "\<exists>cause. ?reject cause \<and> error_class_of cause = Some ExternalServiceErrorClass"
    if "\<forall>xs. jina e ?t [take 8192 msg] \<noteq> Inr (DataItems xs)
             \<and> jina e ?t [take 8192 msg] \<noteq> Inr (Embeddings xs)"
  proof -
    from that generateSingleEmbedding_fails [of e w4 msg] obtain cause
      where f: "fst (generateSingleEmbedding e msg w4) = Inl cause"
        and c: "error_class_of cause = Some ExternalServiceErrorClass"
      unfolding k4 by blast
    from f have "fst (processQuery_tail e sid msg limit threshold (Some s) w4) = Inl cause"
      unfolding processQuery_tail_def by (rule io_bind_Inl)
    with c reject show ?thesis by blast
  qed
  have 5: "?reject (InternalServerError (js ''Failed to search vector database'') (Caught x))"
    if emb: "jina e ?t [take 8192 msg] = Inr r" "r \<noteq> NoEmbeddings"
      and srch: "qdrant_search e (Suc ?t) (first_embedding r) limit threshold = Inl x"
    for r x
  proof -
    define w5 where "w5 = step [JinaPost [take 8192 msg]] w4"
    have e5: "generateSingleEmbedding e msg w4 = (Inr (first_embedding r), w5)"
      unfolding w5_def using emb by (intro generateSingleEmbedding_first) (simp_all add: k4)
    have "qdrant_search e (tick w5) (first_embedding r) limit threshold = Inl x"
      using srch by (simp add: w5_def k4)
    then have "fst (searchSimilar e (first_embedding r) limit threshold w5)
               = Inl (InternalServerError (js ''Failed to search vector database'') (Caught x))"
      by (simp add: searchSimilar_fails)
    then have "fst (processQuery_tail e sid msg limit threshold (Some s) w4)
               = Inl (InternalServerError (js ''Failed to search vector database'') (Caught x))"
      unfolding processQuery_tail_def io_bind_Inr [where m = "generateSingleEmbedding e msg" and w = w4, OF e5] by (rule io_bind_Inl)
    then show ?thesis by (rule reject)
  qed
  have 6: "\<exists>cause. ?reject cause \<and> error_class_of cause = Some ExternalServiceErrorClass"
    if emb: "jina e ?t [take 8192 msg] = Inr r" "r \<noteq> NoEmbeddings"
      and srch: "qdrant_search e (Suc ?t) (first_embedding r) limit threshold = Inr ps"
      and gen: "\<forall>chunks.
                 case gemini e (Suc (Suc ?t))
                        (systemPrompt (buildContext chunks)
                           (formatChatHistory
                              (slice_last 10
                                 ((case redis w (getSessionKey sid) of
                                     None \<Rightarrow> [] | Some (ttl, old) \<Rightarrow> messages old) @ [um])))
                           msg)
                 of Inl x \<Rightarrow> True | Inr reply \<Rightarrow> \<forall>c \<in> set reply. isWhiteSpace c"
    for r ps
  proof -
    define w5 where "w5 = step [JinaPost [take 8192 msg]] w4"
    have e5: "generateSingleEmbedding e msg w4 = (Inr (first_embedding r), w5)"
      unfolding w5_def using emb by (intro generateSingleEmbedding_first) (simp_all add: k4)
    define w6 where "w6 = step [QdrantSearch (first_embedding r) limit threshold] w5"
    have "qdrant_search e (tick w5) (first_embedding r) limit threshold = Inr ps"
      using srch by (simp add: w5_def k4)
    from searchSimilar_ok [OF this] obtain rs
      where s6: "searchSimilar e (first_embedding r) limit threshold w5 = (Inr rs, w6)"
      unfolding w6_def ..
    define cs where "cs = map (\<lambda>result. (payload result)\<lparr>score := Some (r_score result)\<rparr>) rs"
    have k6: "tick w6 = Suc (Suc ?t)" by (simp add: w6_def w5_def k4)
    from gen have "case gemini e (tick w6)
                          (systemPrompt (buildContext cs)
                             (formatChatHistory (slice_last 10 (messages s))) msg)
                   of Inl x \<Rightarrow> True | Inr reply \<Rightarrow> \<forall>c \<in> set reply. isWhiteSpace c"
      unfolding k6 ms by blast
    from generateResponse_fails [OF this] obtain cause
      where f: "fst (generateResponse e msg cs (slice_last 10 (messages s)) w6) = Inl cause"
        and c: "error_class_of cause = Some ExternalServiceErrorClass"
      by blast
    from f have "fst (processQuery_tail e sid msg limit threshold (Some s) w4) = Inl cause"
      unfolding processQuery_tail_def io_bind_Inr [where m = "generateSingleEmbedding e msg" and w = w4, OF e5] io_bind_Inr [where m = "searchSimilar e (first_embedding r) limit threshold" and w = w5, OF s6] cs_def
      by (simp add: io_bind_Inl)
    with c reject show ?thesis by blast
  qed
  from 1 2 3 4 5 6 show ?thesis unfolding um_def by blast
qed

theorem processQuery_records_user_message_witness:
  "store_reachable silent_env \<and> sessions_keyed empty_world
   \<and> jina silent_env (embedding_step empty_world (js ''s1'')) [take 8192 (js ''What is AI?'')]
       = Inr (DataItems [[1, 0]])
   \<and> qdrant_search silent_env (Suc (embedding_step empty_world (js ''s1'')))
         (first_embedding (DataItems [[1, 0]])) 5 (7 / 10) = Inr []
   \<and> (\<forall>p. gemini silent_env (Suc (Suc (embedding_step empty_world (js ''s1'')))) p
            = Inr (js ''  ''))
   \<and> fst (processQuery silent_env (js ''s1'') (js ''What is AI?'') 5 (7 / 10) empty_world)
       = Inl (InternalServerError (js ''Failed to process chat query'')
               (Caught (ExternalServiceError (js ''Gemini API'')
                  (js ''Empty response from Gemini API'')
                  (Caught (JsError (js ''Empty response from Gemini API''))))))
   \<and> fst (getChatHistory silent_env (js ''s1'')
            (snd (processQuery silent_env (js ''s1'') (js ''What is AI?'') 5 (7 / 10)
                    empty_world)))
       = Inr [\<lparr>m_id = js ''id-0'', m_role = user, m_content = js ''What is AI?'',
               m_timestamp = 1001\<rparr>]
   \<and> fst (processQuery no_embedding_env (js ''s1'') (js ''What is AI?'') 5 (7 / 10) empty_world)
       = Inl (InternalServerError (js ''Failed to process chat query'')
               (Caught (ExternalServiceError (js ''Jina Embeddings API'')
                  (js ''Service Unavailable'')
                  (StatusInfo 503 (js ''Service Unavailable'')))))
   \<and> fst (getChatHistory no_embedding_env (js ''s1'')
            (snd (processQuery no_embedding_env (js ''s1'') (js ''What is AI?'') 5 (7 / 10)
                    empty_world)))
       = Inr [\<lparr>m_id = js ''id-0'', m_role = user, m_content = js ''What is AI?'',
               m_timestamp = 1001\<rparr>]
   \<and> fst (processQuery no_search_env (js ''s1'') (js ''What is AI?'') 5 (7 / 10) empty_world)
       = Inl (InternalServerError (js ''Failed to process chat query'')
               (Caught (InternalServerError (js ''Failed to search vector database'')
                  (Caught (JsError (js ''connection refused''))))))
   \<and> fst (getChatHistory no_search_env (js ''s1'')
            (snd (processQuery no_search_env (js ''s1'') (js ''What is AI?'') 5 (7 / 10)
                    empty_world)))
       = Inr [\<lparr>m_id = js ''id-0'', m_role = user, m_content = js ''What is AI?'',
               m_timestamp = 1001\<rparr>]"
  using processQuery_records_user_message
    [OF silent_env_reachable empty_world_keyed, of "js ''s1''" "js ''What is AI?''" 5 "7 / 10"]
  by (simp add: silent_env_reachable empty_world_keyed)
     (simp add: eval_defs getChatHistory_def silent_env_def no_embedding_env_def
        no_search_env_def quiet_env_def empty_world_def embedding_step_def first_embedding_def
        trim_def isWhiteSpace_def js_def decimal.simps Let_def InternalServerError_def
        ExternalServiceError_def)

text \<open>
  C1, as the code has it: when the generation provider answers with an empty or
  all-whitespace string, \<open>generateResponse\<close> rejects with the ExternalServiceError
  of the Gemini API, and \<open>processQuery\<close>, whose earlier steps succeeded, rejects with
  its own InternalServerError, which carries that ExternalServiceError as its details.
\<close>

theorem processQuery_empty_generation:
  assumes "store_reachable e" and "sessions_keyed w"
    and "\<forall>n texts. \<exists>r. jina e n texts = Inr r \<and> r \<noteq> NoEmbeddings"
    and "\<forall>n v l t. \<exists>ps. qdrant_search e n v l t = Inr ps"
    and "\<forall>n p. \<exists>text. gemini e n p = Inr text \<and> (\<forall>c \<in> set text. isWhiteSpace c)"
  shows "fst (generateResponse e msg chunks history w)
           = Inl (ExternalServiceError (js ''Gemini API'') (js ''Empty response from Gemini API'')
                   (Caught (JsError (js ''Empty response from Gemini API''))))
       \<and> fst (processQuery e sid msg limit threshold w)
           = Inl (InternalServerError (js ''Failed to process chat query'')
                   (Caught (ExternalServiceError (js ''Gemini API'')
                      (js ''Empty response from Gemini API'')
                      (Caught (JsError (js ''Empty response from Gemini API''))))))"
proof
  from assms(5) obtain reply
    where "gemini e (tick w) (systemPrompt (buildContext chunks) (formatChatHistory history) msg)
           = Inr reply"
      and "\<forall>c \<in> set reply. isWhiteSpace c"
    by blast
  then show "fst (generateResponse e msg chunks history w)
           = Inl (ExternalServiceError (js ''Gemini API'') (js ''Empty response from Gemini API'')
                   (Caught (JsError (js ''Empty response from Gemini API''))))"
    by (simp add: generateResponse_empty)
next
  from processQuery_after_history [OF assms(1,2), of sid msg limit threshold]
  obtain s w4 where
    eq: "processQuery e sid msg limit threshold w
        = io_catch (processQuery_tail e sid msg limit threshold (Some s))
            (\<lambda>error. io_throw
               (InternalServerError (js ''Failed to process chat query'') (Caught error))) w4"
    by blast
  from assms(3) obtain r where "jina e (tick w4) [take 8192 msg] = Inr r" and "r \<noteq> NoEmbeddings"
    by blast
  from generateSingleEmbedding_ok [OF this] obtain v
    where emb: "generateSingleEmbedding e msg w4 = (Inr v, step [JinaPost [take 8192 msg]] w4)" ..
  define w5 where "w5 = step [JinaPost [take 8192 msg]] w4"
  from assms(4) obtain ps where "qdrant_search e (tick w5) v limit threshold = Inr ps" by blast
  from searchSimilar_ok [OF this] obtain rs
    where srch: "searchSimilar e v limit threshold w5
                 = (Inr rs, step [QdrantSearch v limit threshold] w5)" ..
  define w6 where "w6 = step [QdrantSearch v limit threshold] w5"
  define cs where "cs = map (\<lambda>result. (payload result)\<lparr>score := Some (r_score result)\<rparr>) rs"
  define hs where "hs = slice_last 10 (messages s)"
  from assms(5) obtain reply
    where "gemini e (tick w6) (systemPrompt (buildContext cs) (formatChatHistory hs) msg)
           = Inr reply"
      and "\<forall>c \<in> set reply. isWhiteSpace c"
    by blast
  note gen = generateResponse_empty [OF this]
  have "processQuery_tail e sid msg limit threshold (Some s) w4
        = (Inl (ExternalServiceError (js ''Gemini API'') (js ''Empty response from Gemini API'')
                   (Caught (JsError (js ''Empty response from Gemini API'')))),
           step [GeminiGenerate (systemPrompt (buildContext cs) (formatChatHistory hs) msg)] w6)"
    using emb srch gen
    by (simp add: processQuery_tail_def io_bind_def w5_def w6_def cs_def hs_def)
  then show "fst (processQuery e sid msg limit threshold w)
           = Inl (InternalServerError (js ''Failed to process chat query'')
                   (Caught (ExternalServiceError (js ''Gemini API'')
                      (js ''Empty response from Gemini API'')
                      (Caught (JsError (js ''Empty response from Gemini API''))))))"
    unfolding eq by (simp add: io_catch_def io_throw_def)
qed

theorem processQuery_empty_generation_witness:
  "store_reachable silent_env \<and> sessions_keyed empty_world
   \<and> (\<forall>n texts. \<exists>r. jina silent_env n texts = Inr r \<and> r \<noteq> NoEmbeddings)
   \<and> (\<forall>n v l t. \<exists>ps. qdrant_search silent_env n v l t = Inr ps)
   \<and> (\<forall>n p. \<exists>reply. gemini silent_env n p = Inr reply \<and> (\<forall>c \<in> set reply. isWhiteSpace c))
   \<and> fst (processQuery silent_env (js ''s1'') (js ''What is AI?'') 5 (7 / 10) empty_world)
       = Inl (InternalServerError (js ''Failed to process chat query'')
               (Caught (ExternalServiceError (js ''Gemini API'')
                  (js ''Empty response from Gemini API'')
                  (Caught (JsError (js ''Empty response from Gemini API''))))))"
proof -
  have 1: "\<forall>n texts. \<exists>r. jina silent_env n texts = Inr r \<and> r \<noteq> NoEmbeddings"
    by (simp add: silent_env_def quiet_env_def)
  have 2: "\<forall>n v l t. \<exists>ps. qdrant_search silent_env n v l t = Inr ps"
    by (simp add: silent_env_def quiet_env_def)
  have 3: "\<forall>n p. \<exists>reply. gemini silent_env n p = Inr reply \<and> (\<forall>c \<in> set reply. isWhiteSpace c)"
    by (simp add: silent_env_def quiet_env_def js_def isWhiteSpace_def)
  from processQuery_empty_generation [OF silent_env_reachable empty_world_keyed 1 2 3]
    silent_env_reachable empty_world_keyed 1 2 3
  show ?thesis by blast
qed

text \<open>
  The claim C1 as it is written fails: with a provider that answers with blanks,
  \<open>processQuery\<close> rejects with an error of the class InternalServerError, not
  ExternalServiceError.
\<close>

theorem processQuery_empty_generation_counterexample:
  "map_sum error_class_of message
     (fst (processQuery silent_env (js ''s1'') (js ''What is AI?'') 5 (7 / 10) empty_world))
   = Inl (Some InternalServerErrorClass)"
  by (simp add: eval_defs silent_env_def quiet_env_def empty_world_def trim_def isWhiteSpace_def
      js_def InternalServerError_def ExternalServiceError_def Let_def)

text \<open>
  C8: on a reachable store whose sessions are keyed by their ids, every prompt that
  \<open>processQuery\<close> sends to the generation provider is the template of
  \<open>generateResponse\<close> filled with a context, the history and the question, and it
  contains, under the heading of the conversation history and before the question, the
  role-tagged lines of the session's messages after the append of the user's message:
  the last 10 of them at most, oldest first, and all of them in order when there are
  10 or fewer.
\<close>

theorem processQuery_prompt_history:
  assumes "store_reachable e" and "sessions_keyed w"
  shows "(\<forall>ev \<in> set (drop (length (trace w))
                        (trace (snd (processQuery e sid msg limit threshold w)))).
            \<forall>prompt. ev = GeminiGenerate prompt \<longrightarrow>
              (\<exists>chunks. prompt =
                 systemPrompt (buildContext chunks)
                   (join nl (history_lines
                      ((case redis w (getSessionKey sid) of
                          None \<Rightarrow> [] | Some (ttl, old) \<Rightarrow> messages old)
                       @ [\<lparr>m_id = uuid e (tick w), m_role = user, m_content = msg,
                           m_timestamp = now e (Suc (tick w))\<rparr>])))
                   msg)
              \<and> (\<exists>before after. prompt =
                   before @ js ''CONVERSATION HISTORY:'' @ nl
                   @ join nl (history_lines
                      ((case redis w (getSessionKey sid) of
                          None \<Rightarrow> [] | Some (ttl, old) \<Rightarrow> messages old)
                       @ [\<lparr>m_id = uuid e (tick w), m_role = user, m_content = msg,
                           m_timestamp = now e (Suc (tick w))\<rparr>]))
                   @ nl @ nl @ js ''USER QUESTION: '' @ msg @ after))
       \<and> length (history_lines h) \<le> 10
       \<and> (length h \<le> 10 \<longrightarrow>
            history_lines h = map (\<lambda>m. role_tag (m_role m) @ js '': '' @ m_content m) h)
       \<and> (10 \<le> length h \<longrightarrow>
            history_lines h
              = map (\<lambda>i. role_tag (m_role (h ! (length h - 10 + i))) @ js '': ''
                          @ m_content (h ! (length h - 10 + i))) [0..<10])"
proof (intro conjI)
  define H where "H = (case redis w (getSessionKey sid) of
                          None \<Rightarrow> [] | Some (ttl, old) \<Rightarrow> messages old)
                       @ [\<lparr>m_id = uuid e (tick w), m_role = user, m_content = msg,
                           m_timestamp = now e (Suc (tick w))\<rparr>]"
  define Q where "Q = (\<lambda>ev. \<forall>prompt. ev = GeminiGenerate prompt \<longrightarrow>
              (\<exists>chunks. prompt = systemPrompt (buildContext chunks) (join nl (history_lines H)) msg)
              \<and> (\<exists>before after. prompt =
                   before @ js ''CONVERSATION HISTORY:'' @ nl @ join nl (history_lines H)
                   @ nl @ nl @ js ''USER QUESTION: '' @ msg @ after))"
  define h' :: "thrown \<Rightarrow> ChatResponse io" where "h' = (\<lambda>error. io_throw
               (InternalServerError (js ''Failed to process chat query'') (Caught error)))"
  have H_ne: "H \<noteq> []" by (simp add: H_def)
  from processQuery_after_history [OF assms, of sid msg limit threshold]
  obtain s w4 where
    eq: "processQuery e sid msg limit threshold w
        = io_catch (processQuery_tail e sid msg limit threshold (Some s)) h' w4"
    and ms: "messages s = H"
    and t4: "trace w4 = trace w @ [RedisGet (getSessionKey sid),
            RedisSetex (getSessionKey sid) SESSION_TTL s, RedisGet (getSessionKey sid)]"
    unfolding H_def h'_def by blast
  have tail: "preserves (\<lambda>w'. \<forall>ev \<in> set (drop (length (trace w)) (trace w')). Q ev)
           (processQuery_tail e sid msg limit threshold (Some s))"
  proof (rule processQuery_tail_events)
    show "Q ev" if "is_redis_event ev" for ev using that by (cases ev) (simp_all add: Q_def)
    show "Q (JinaPost ts)" for ts by (simp add: Q_def)
    show "Q (QdrantSearch v limit threshold)" for v by (simp add: Q_def)
    show "Q (GeminiGenerate
           (systemPrompt (buildContext c)
              (formatChatHistory
                 (slice_last 10 (case Some s of None \<Rightarrow> [] | Some s \<Rightarrow> messages s))) msg))" for c
      using formatChatHistory_lines [OF H_ne]
        systemPrompt_history [of "buildContext c" "join nl (history_lines H)" msg]
      by (auto simp: Q_def ms)
  qed
  have "preserves (\<lambda>w'. \<forall>ev \<in> set (drop (length (trace w)) (trace w')). Q ev)
          (io_catch (processQuery_tail e sid msg limit threshold (Some s)) h')"
    unfolding h'_def by (intro preserves_catch preserves_throw tail)
  moreover have "\<forall>ev \<in> set (drop (length (trace w)) (trace w4)). Q ev"
    by (simp add: t4 Q_def)
  ultimately have "\<forall>ev \<in> set (drop (length (trace w))
      (trace (snd (processQuery e sid msg limit threshold w)))). Q ev"
    unfolding eq by (rule preservesD)
  then show "\<forall>ev \<in> set (drop (length (trace w))
                        (trace (snd (processQuery e sid msg limit threshold w)))).
            \<forall>prompt. ev = GeminiGenerate prompt \<longrightarrow>
              (\<exists>chunks. prompt =
                 systemPrompt (buildContext chunks)
                   (join nl (history_lines
                      ((case redis w (getSessionKey sid) of
                          None \<Rightarrow> [] | Some (ttl, old) \<Rightarrow> messages old)
                       @ [\<lparr>m_id = uuid e (tick w), m_role = user, m_content = msg,
                           m_timestamp = now e (Suc (tick w))\<rparr>])))
                   msg)
              \<and> (\<exists>before after. prompt =
                   before @ js ''CONVERSATION HISTORY:'' @ nl
                   @ join nl (history_lines
                      ((case redis w (getSessionKey sid) of
                          None \<Rightarrow> [] | Some (ttl, old) \<Rightarrow> messages old)
                       @ [\<lparr>m_id = uuid e (tick w), m_role = user, m_content = msg,
                           m_timestamp = now e (Suc (tick w))\<rparr>]))
                   @ nl @ nl @ js ''USER QUESTION: '' @ msg @ after)"
    unfolding Q_def H_def .
next
  show "length (history_lines h) \<le> 10" by (simp add: history_lines_def)
next
  show "length h \<le> 10 \<longrightarrow>
            history_lines h = map (\<lambda>m. role_tag (m_role m) @ js '': '' @ m_content m) h"
    by (simp add: history_lines_def)
next
  show "10 \<le> length h \<longrightarrow>
            history_lines h
              = map (\<lambda>i. role_tag (m_role (h ! (length h - 10 + i))) @ js '': ''
                          @ m_content (h ! (length h - 10 + i))) [0..<10]"
  proof
    assume "10 \<le> length h"
    then show "history_lines h
              = map (\<lambda>i. role_tag (m_role (h ! (length h - 10 + i))) @ js '': ''
                          @ m_content (h ! (length h - 10 + i))) [0..<10]"
      unfolding history_lines_def
      by (intro nth_equalityI) simp_all
  qed
qed

theorem processQuery_prompt_history_witness:
  "store_reachable quiet_env \<and> sessions_keyed one_session_world
   \<and> GeminiGenerate
       (systemPrompt (js ''No relevant articles found for this query.'')
          (js ''USER: hello'' @ nl @ js ''USER: What is AI?'') (js ''What is AI?''))
     \<in> set (drop (length (trace one_session_world))
              (trace (snd (processQuery quiet_env (js ''s1'') (js ''What is AI?'') 5 (7 / 10)
                             one_session_world))))"
  using processQuery_prompt_history
    [OF quiet_env_reachable one_session_world_keyed, of "js ''s1''" "js ''What is AI?''" 5 "7 / 10"]
  by (simp add: quiet_env_reachable one_session_world_keyed)
     (simp add: eval_defs quiet_env_def one_session_world_def hello_def
        trim_def isWhiteSpace_def js_def decimal.simps Let_def buildContext_def
        formatChatHistory_def slice_last_def toUpperCase_def role_name_def nl_def)


text \<open>
  C6: the values passed to the search of the vector store are bounded at the boundary,
  the request handlers of the controller. Every search that \<open>searchDocuments\<close>
  issues has the limit \<open>min limit 20\<close>, at most 20, and the threshold
  \<open>max threshold 0.3\<close>, at least 0.3, whatever limit and threshold the request
  carries, the defaults 10 and 0.6 standing for a missing field. The chat handler takes
  no limit or threshold and calls \<open>processQuery\<close> with its defaults, so its searches
  have the limit 5 and the threshold 0.7. Behind the boundary, \<open>processQuery\<close> and
  \<open>searchSimilarDocuments\<close> pass the limit and the threshold they are given to the
  search as they are.
\<close>

theorem search_bounds_at_the_controller:
  "(\<forall>ev \<in> set (drop (length (trace w))
                   (trace (snd (searchDocuments e errors query limit_opt threshold_opt w)))).
      \<forall>v l t. ev = QdrantSearch v l t \<longrightarrow>
        l = min (case limit_opt of None \<Rightarrow> 10 | Some x \<Rightarrow> x) 20
        \<and> t = max (case threshold_opt of None \<Rightarrow> 6 / 10 | Some x \<Rightarrow> x) (3 / 10)
        \<and> l \<le> 20 \<and> 3 / 10 \<le> t)
   \<and> (\<forall>ev \<in> set (drop (length (trace w)) (trace (snd (chat e errors sid msg w)))).
        \<forall>v l t. ev = QdrantSearch v l t \<longrightarrow> l = 5 \<and> t = 7 / 10)
   \<and> (\<forall>ev \<in> set (drop (length (trace w))
                     (trace (snd (processQuery e sid msg limit threshold w)))).
        \<forall>v l t. ev = QdrantSearch v l t \<longrightarrow> l = limit \<and> t = threshold)
   \<and> (\<forall>ev \<in> set (drop (length (trace w))
                     (trace (snd (searchSimilarDocuments e query limit threshold w)))).
        \<forall>v l t. ev = QdrantSearch v l t \<longrightarrow> l = limit \<and> t = threshold)"
proof (intro conjI)
  show "\<forall>ev \<in> set (drop (length (trace w))
                   (trace (snd (searchDocuments e errors query limit_opt threshold_opt w)))).
      \<forall>v l t. ev = QdrantSearch v l t \<longrightarrow>
        l = min (case limit_opt of None \<Rightarrow> 10 | Some x \<Rightarrow> x) 20
        \<and> t = max (case threshold_opt of None \<Rightarrow> 6 / 10 | Some x \<Rightarrow> x) (3 / 10)
        \<and> l \<le> 20 \<and> 3 / 10 \<le> t"
  proof (cases "errors = []")
    case False
    then show ?thesis by (simp add: searchDocuments_def io_throw_def)
  next
    case True
    from searchSimilarDocuments_search_events
      [of w e query "min (case limit_opt of None \<Rightarrow> 10 | Some x \<Rightarrow> x) 20"
          "max (case threshold_opt of None \<Rightarrow> 6 / 10 | Some x \<Rightarrow> x) (3 / 10)"]
    show ?thesis using True by (auto simp: searchDocuments_def)
  qed
  show "\<forall>ev \<in> set (drop (length (trace w)) (trace (snd (chat e errors sid msg w)))).
        \<forall>v l t. ev = QdrantSearch v l t \<longrightarrow> l = 5 \<and> t = 7 / 10"
  proof (cases "errors = []")
    case False
    then show ?thesis by (simp add: chat_def io_throw_def)
  next
    case True
    from processQuery_search_events [of w e sid msg 5 "7 / 10"]
    show ?thesis using True by (simp add: chat_def)
  qed
  show "\<forall>ev \<in> set (drop (length (trace w))
                     (trace (snd (processQuery e sid msg limit threshold w)))).
        \<forall>v l t. ev = QdrantSearch v l t \<longrightarrow> l = limit \<and> t = threshold"
    by (rule processQuery_search_events)
  show "\<forall>ev \<in> set (drop (length (trace w))
                     (trace (snd (searchSimilarDocuments e query limit threshold w)))).
        \<forall>v l t. ev = QdrantSearch v l t \<longrightarrow> l = limit \<and> t = threshold"
    by (rule searchSimilarDocuments_search_events)
qed

theorem search_bounds_at_the_controller_witness:
  "trace (snd (searchDocuments quiet_env [] (js ''AI'') (Some 20) (Some (1 / 10)) empty_world))
     = [JinaPost [js ''AI''], QdrantSearch [1, 0] 20 (3 / 10)]
   \<and> trace (snd (searchDocuments quiet_env [] (js ''AI'') None None empty_world))
     = [JinaPost [js ''AI''], QdrantSearch [1, 0] 10 (6 / 10)]
   \<and> QdrantSearch [1, 0] 5 (7 / 10)
     \<in> set (trace (snd (chat quiet_env [] (js ''s1'') (js ''What is AI?'') empty_world)))"
  using search_bounds_at_the_controller
    [of empty_world quiet_env "[]" "js ''AI''" "Some 20" "Some (1 / 10)" "js ''s1''"
        "js ''What is AI?''" 5 "7 / 10"]
  by (simp add: searchDocuments_def searchSimilarDocuments_def chat_def eval_defs quiet_env_def
      empty_world_def trim_def isWhiteSpace_def js_def Let_def)

text \<open>
  C7: \<open>extendSessionTTL\<close> never throws, whether the \<open>EXPIRE\<close> command fails or not,
  and what \<open>processQuery\<close> returns or throws does not depend on the failures of
  \<open>EXPIRE\<close>: with any other pattern of such failures (none, or one at the refresh of
  this call) the call returns the same response or rejects with the same error.
\<close>

theorem ttl_refresh_failure_is_swallowed:
  "fst (extendSessionTTL e sid w) = Inr ()
   \<and> fst (processQuery (e\<lparr>redis_expire_fault := f\<rparr>) sid msg limit threshold w)
       = fst (processQuery e sid msg limit threshold w)"
proof
  show "fst (extendSessionTTL e sid w) = Inr ()" by (rule extendSessionTTL_result)
  have last: "same_result
      (io_bind (extendSessionTTL (e\<lparr>redis_expire_fault := f\<rparr>) sid) (\<lambda>_. io_return r))
      (io_bind (extendSessionTTL e sid) (\<lambda>_. io_return r))" for r :: ChatResponse
  proof -
    have "fst (io_bind (extendSessionTTL e' sid) (\<lambda>_. io_return r) w') = Inr r" for e' w'
      using extendSessionTTL_result [of e' sid w']
      by (cases "extendSessionTTL e' sid w'") (simp add: io_bind_def io_return_def)
    then show ?thesis by (simp add: same_result_def)
  qed
  have "same_result (processQuery (e\<lparr>redis_expire_fault := f\<rparr>) sid msg limit threshold)
          (processQuery e sid msg limit threshold)"
    unfolding processQuery_def expire_fault_operations expire_fault_clients
    by (intro same_result_catch same_result_bind last)
  then show "fst (processQuery (e\<lparr>redis_expire_fault := f\<rparr>) sid msg limit threshold w)
       = fst (processQuery e sid msg limit threshold w)"
    by (simp add: same_result_def)
qed


theorem ttl_refresh_failure_is_swallowed_witness:
  "redis_expire_fault no_expire_env 15 = Some (JsError (js ''READONLY''))
   \<and> RedisExpire (getSessionKey (js ''s1'')) SESSION_TTL
       = last (trace (snd (processQuery no_expire_env (js ''s1'') (js ''What is AI?'') 5 (7 / 10)
                             empty_world)))
   \<and> fst (processQuery no_expire_env (js ''s1'') (js ''What is AI?'') 5 (7 / 10) empty_world)
       = Inr \<lparr>message = js ''AI is the study of agents.'', session_id = js ''s1'',
               message_id = js ''id-10'', sources = []\<rparr>"
proof -
  have "fst (processQuery quiet_env (js ''s1'') (js ''What is AI?'') 5 (7 / 10) empty_world)
       = Inr \<lparr>message = js ''AI is the study of agents.'', session_id = js ''s1'',
               message_id = js ''id-10'', sources = []\<rparr>"
    by (simp add: eval_defs quiet_env_def empty_world_def trim_def isWhiteSpace_def
        js_def decimal.simps Let_def)
  moreover have "last (trace (snd (processQuery no_expire_env (js ''s1'') (js ''What is AI?'') 5
                             (7 / 10) empty_world)))
                 = RedisExpire (getSessionKey (js ''s1'')) SESSION_TTL"
    by (simp add: eval_defs no_expire_env_def quiet_env_def empty_world_def trim_def
        isWhiteSpace_def js_def decimal.simps Let_def)
  ultimately show ?thesis
    using ttl_refresh_failure_is_swallowed
      [of quiet_env "js ''s1''" empty_world "\<lambda>n. Some (JsError (js ''READONLY''))"
          "js ''What is AI?''" 5 "7 / 10"]
    by (simp add: no_expire_env_def)
qed

section \<open>Batch indexing\<close>

text \<open>
  C4: when the embeddings that come back are not as many as the chunks,
  \<open>upsertDocuments\<close> throws at once and leaves the world as it was: no upsert is
  sent to the vector store. \<open>indexDocuments\<close> then rejects, the points of the vector
  store are those from before the call and the trace has no new upsert. The error is
  an InternalServerError (status 500); no ValidationError is involved.
\<close>

theorem indexDocuments_count_mismatch:
  assumes "batchEmbeddings e (map content documents) w = (Inr embeddings, w1)"
    and "length documents \<noteq> length embeddings"
  shows "upsertDocuments e documents embeddings w1
         = (Inl (InternalServerError (js ''Failed to store documents in vector database'')
                   (Caught (JsError
                      (js ''Documents and embeddings arrays must have the same length'')))),
            w1)
       \<and> indexDocuments e documents w
         = (Inl (InternalServerError (js ''Failed to index documents'')
                   (Caught (InternalServerError
                      (js ''Failed to store documents in vector database'')
                      (Caught (JsError
                         (js ''Documents and embeddings arrays must have the same length'')))))),
            w1)
       \<and> points w1 = points w
       \<and> filter is_upsert (trace w1) = filter is_upsert (trace w)
       \<and> error_class_of (InternalServerError (js ''Failed to index documents'')
                   (Caught (InternalServerError
                      (js ''Failed to store documents in vector database'')
                      (Caught (JsError
                         (js ''Documents and embeddings arrays must have the same length''))))))
           = Some InternalServerErrorClass"
proof (intro conjI)
  show up: "upsertDocuments e documents embeddings w1
         = (Inl (InternalServerError (js ''Failed to store documents in vector database'')
                   (Caught (JsError
                      (js ''Documents and embeddings arrays must have the same length'')))),
            w1)"
    using assms(2) by (rule upsertDocuments_mismatch)
  have ne: "length documents \<noteq> 0"
  proof
    assume "length documents = 0"
    with assms(1) have "embeddings = []" by (simp add: batchEmbeddings_def io_return_def)
    with \<open>length documents = 0\<close> assms(2) show False by simp
  qed
  then show "indexDocuments e documents w
         = (Inl (InternalServerError (js ''Failed to index documents'')
                   (Caught (InternalServerError
                      (js ''Failed to store documents in vector database'')
                      (Caught (JsError
                         (js ''Documents and embeddings arrays must have the same length'')))))),
            w1)"
    using assms(1) up by (simp add: indexDocuments_def io_defs)
  from batchEmbeddings_frame [of e "map content documents" w] assms(1)
  show "points w1 = points w" and "filter is_upsert (trace w1) = filter is_upsert (trace w)"
    by simp_all
  show "error_class_of (InternalServerError (js ''Failed to index documents'')
                   (Caught (InternalServerError
                      (js ''Failed to store documents in vector database'')
                      (Caught (JsError
                         (js ''Documents and embeddings arrays must have the same length''))))))
           = Some InternalServerErrorClass"
    by (simp add: InternalServerError_def)
qed

theorem indexDocuments_count_mismatch_witness:
  "batchEmbeddings short_env (map content two_chunks) empty_world
     = (Inr [[1, 0]], step [JinaPost [js ''AI is...'', js ''ML is...'']] empty_world)
   \<and> length two_chunks \<noteq> length [[1, 0 :: real]]
   \<and> fst (indexDocuments short_env two_chunks empty_world)
     = Inl (InternalServerError (js ''Failed to index documents'')
                   (Caught (InternalServerError
                      (js ''Failed to store documents in vector database'')
                      (Caught (JsError
                         (js ''Documents and embeddings arrays must have the same length''))))))
   \<and> points (snd (indexDocuments short_env two_chunks empty_world)) = Map.empty
   \<and> filter is_upsert (trace (snd (indexDocuments short_env two_chunks empty_world))) = []"
proof -
  have len: "length two_chunks \<noteq> length [[1, 0 :: real]]" by (simp add: two_chunks_def)
  from indexDocuments_count_mismatch [OF short_batch len] short_batch len
  show ?thesis by (simp add: empty_world_def)
qed


end
